theory Spec2Isabelle
  imports Main
begin

section \<open>The FHIR resource of terraform-provider-fhirrest\<close>

text \<open>
  A shallow embedding of the provider's resource implementation: the shared helper
  \<open>persistFhirResource\<close>, the helper \<open>ReadFhirResource\<close>, and the four operations
  \<open>Create\<close>, \<open>Read\<close>, \<open>Update\<close> and \<open>Delete\<close> of \<open>FhirResource\<close>.

  Go strings and byte slices are \<open>string\<close> (a list of bytes). A Go run-time panic is a
  value of its own (\<open>Panic\<close>), so that an unchecked index or type assertion of the source is
  a branch of the model. Everything the code obtains from outside the repository (the file
  system, \<open>encoding/json\<close>, \<open>net/http\<close>, \<open>crypto/sha256\<close>, the formatting of non-string
  operands by \<open>fmt\<close>) is a field of the record \<open>world\<close>; the theorems hold for every world.
\<close>

subsection \<open>Values\<close>

text \<open>
  What \<open>json.Unmarshal\<close> stores in an \<open>interface{}\<close>: \<open>nil\<close>, \<open>bool\<close>, \<open>float64\<close>,
  \<open>string\<close>, \<open>[]interface{}\<close> or \<open>map[string]interface{}\<close>. The provider never inspects
  a number, so a number is carried as its literal.
\<close>

datatype json =
    JNull
  | JBool bool
  | JNumber string
  | JString string
  | JArray "json list"
  | JObject "(string \<times> json) list"

text \<open>
  A \<open>map[string]interface{}\<close> variable: \<open>None\<close> is the nil map (what \<open>json.Unmarshal\<close>
  leaves for the document \<open>null\<close>), \<open>Some m\<close> an allocated map.
\<close>

type_synonym gomap = "(string \<rightharpoonup> json) option"

text \<open>The two-valued read \<open>v, ok := m[k]\<close>; \<open>None\<close> is \<open>ok = false\<close>. Reading a nil map is allowed.\<close>

definition lookup :: "gomap \<Rightarrow> string \<Rightarrow> json option" where
  "lookup m k = (case m of None \<Rightarrow> None | Some f \<Rightarrow> f k)"

text \<open>The one-valued read \<open>m[k]\<close>: the zero value (the nil interface) when the key is absent.\<close>

definition index :: "gomap \<Rightarrow> string \<Rightarrow> json" where
  "index m k = (case lookup m k of None \<Rightarrow> JNull | Some v \<Rightarrow> v)"

datatype panic =
    NilPointerDereference
  | IndexOutOfRange
  | InterfaceConversion
  | AssignmentToNilMap

datatype 'a go = Panic panic | Return 'a

text \<open>The unchecked type assertion \<open>v.(string)\<close>: it panics unless \<open>v\<close> holds a string.\<close>

definition assert_string :: "json \<Rightarrow> string go" where
  "assert_string v = (case v of JString s \<Rightarrow> Return s | _ \<Rightarrow> Panic InterfaceConversion)"

text \<open>\<open>types.String\<close> of the plugin framework, with its two accessors.\<close>

datatype tf_string = StringNull | StringUnknown | StringValue string

definition ValueString :: "tf_string \<Rightarrow> string" where
  "ValueString s = (case s of StringValue v \<Rightarrow> v | _ \<Rightarrow> [])"

definition ValueStringPointer :: "tf_string \<Rightarrow> string option" where
  "ValueStringPointer s =
     (case s of StringNull \<Rightarrow> None | StringUnknown \<Rightarrow> Some [] | StringValue v \<Rightarrow> Some v)"

subsection \<open>Diagnostics\<close>

datatype severity = SeverityError | SeverityWarning

record diagnostic =
  Severity :: severity
  Summary :: string
  Detail :: string

type_synonym Diagnostics = "diagnostic list"

text \<open>\<open>Diagnostics.Append\<close> skips a diagnostic the collection already contains.\<close>

fun Append :: "Diagnostics \<Rightarrow> diagnostic list \<Rightarrow> Diagnostics" where
  "Append ds [] = ds"
| "Append ds (d # rest) = Append (if d \<in> set ds then ds else ds @ [d]) rest"

definition AddError :: "Diagnostics \<Rightarrow> string \<Rightarrow> string \<Rightarrow> Diagnostics" where
  "AddError ds summary detail =
     Append ds [\<lparr>Severity = SeverityError, Summary = summary, Detail = detail\<rparr>]"

definition HasError :: "Diagnostics \<Rightarrow> bool" where
  "HasError ds = (\<exists>d \<in> set ds. Severity d = SeverityError)"

subsection \<open>Requests, responses and the outside world\<close>

text \<open>
  \<open>DefaultHeaders\<close> is a Go map; the list gives its entries in the order in which the
  \<open>range\<close> loop of the call at hand visits them (Go leaves that order open).
\<close>

record ProviderSettings =
  FhirBaseUrl :: string
  DefaultHeaders :: "(string \<times> string) list"

record Request =
  Method :: string
  URL :: string
  Body :: "string option"
  Header :: "string \<rightharpoonup> string list"

record Response =
  Status :: string
  ResponseBody :: string

datatype file_read = OpenError string | ReadError string | FileBytes string

record world =
  read_file :: "string \<Rightarrow> file_read"
  json_Unmarshal :: "string \<Rightarrow> string + gomap"
  json_Marshal :: "gomap \<Rightarrow> string"
  http_NewRequest :: "string \<Rightarrow> string \<Rightarrow> string option"
  Client_Do :: "Request \<Rightarrow> string + Response"
  sha256_Sum256 :: "string \<Rightarrow> string"
  CanonicalMIMEHeaderKey :: "string \<Rightarrow> string"
  format_other :: "json \<Rightarrow> string"

text \<open>
  The fields of \<open>world\<close>: \<open>read_file\<close> is \<open>os.Open\<close> followed by \<open>io.ReadAll\<close>, with the
  error of either; \<open>json_Unmarshal\<close> decodes into a \<open>map[string]interface{}\<close> (\<open>Inl\<close> the
  error text); \<open>json_Marshal\<close> encodes such a map; \<open>http_NewRequest method url\<close> is the
  error of \<open>http.NewRequest\<close>, if any; \<open>Client_Do\<close> is the round trip of the HTTP client
  (\<open>Inl\<close> the error text), with \<open>ResponseBody\<close> the bytes that \<open>io.ReadAll\<close> returns
  for the body (the code drops the errors of \<open>io.ReadAll\<close> and of \<open>json.Marshal\<close>);
  \<open>CanonicalMIMEHeaderKey\<close> is the key under which \<open>Header.Set\<close> stores a value;
  \<open>format_other\<close> is what the verb \<open>%s\<close> prints for an operand that is not a string.
\<close>

text \<open>\<open>fmt.Sprintf("%s", v)\<close> for an \<open>interface{}\<close> operand: a string is printed as it is.\<close>

definition fmt_s :: "world \<Rightarrow> json \<Rightarrow> string" where
  "fmt_s w v = (case v of JString s \<Rightarrow> s | _ \<Rightarrow> format_other w v)"

text \<open>\<open>fmt.Sprintf("%s/%s", a, b)\<close> for two strings.\<close>

definition Sprintf_slash :: "string \<Rightarrow> string \<Rightarrow> string" where
  "Sprintf_slash a b = a @ ''/'' @ b"

text \<open>\<open>strings.Split(s, sep)\<close> for a separator of one byte: never an empty list.\<close>

fun strings_Split :: "string \<Rightarrow> char \<Rightarrow> string list" where
  "strings_Split [] c = [[]]"
| "strings_Split (x # xs) c =
     (if x = c then [] # strings_Split xs c
      else (case strings_Split xs c of
              [] \<Rightarrow> [[x]]
            | p # ps \<Rightarrow> (x # p) # ps))"

text \<open>\<open>Header.Set(key, value)\<close> replaces the values stored under the canonical key.\<close>

definition Header_Set ::
  "world \<Rightarrow> (string \<rightharpoonup> string list) \<Rightarrow> string \<Rightarrow> string \<Rightarrow> (string \<rightharpoonup> string list)" where
  "Header_Set w h key val = h(CanonicalMIMEHeaderKey w key \<mapsto> [val])"

text \<open>\<open>hex.EncodeToString\<close>: two lower-case digits for each byte.\<close>

definition hextable :: string where
  "hextable = ''0123456789abcdef''"

definition hex_EncodeToString :: "string \<Rightarrow> string" where
  "hex_EncodeToString src =
     concat (map (\<lambda>c. [hextable ! ((of_char c :: nat) div 16),
                        hextable ! ((of_char c :: nat) mod 16)]) src)"

subsection \<open>The resource\<close>

record FhirResourceSettings =
  FhirResourceFilePath :: string
  FhirBaseUrl :: "string option"

text \<open>\<open>providerSettings\<close> is a pointer: \<open>None\<close> while the provider has not been configured.\<close>

record FhirResource =
  providerSettings :: "ProviderSettings option"
  fhirResourceSettings :: FhirResourceSettings

record FhirResourceModel =
  FilePath :: tf_string
  FileSha256 :: tf_string
  FhirBaseUrl :: tf_string
  ResourceId :: tf_string
  ResponseSha256 :: tf_string

text \<open>
  What an operation hands back to the framework: the diagnostics of the response, and the
  state written by \<open>resp.State.Set\<close> (\<open>None\<close> when the operation returns before that call).
  \<open>State.Set\<close> of a well-typed model reports no diagnostics of its own.
\<close>

record OperationResponse =
  Diagnostics :: Diagnostics
  State :: "FhirResourceModel option"

subsection \<open>readFileContent and persistFhirResource\<close>

definition readFileContent :: "world \<Rightarrow> string \<Rightarrow> Diagnostics \<Rightarrow> Diagnostics \<times> string option" where
  "readFileContent w filePath diag =
     (case read_file w filePath of
        OpenError err \<Rightarrow> (AddError diag (''failed to read file '' @ filePath) err, None)
      | ReadError err \<Rightarrow> (AddError diag (''failed to open file '' @ filePath) err, None)
      | FileBytes byteValue \<Rightarrow> (diag, Some byteValue))"

text \<open>
  The result pairs the requests handed to \<open>Client.Do\<close>, in order, with the outcome: a panic,
  or the diagnostics and the three returned values (\<open>None\<close> for \<open>nil, nil, nil\<close>).
  \<open>resourceId\<close> is \<open>None\<close> for the nil pointer that \<open>Create\<close> passes.
\<close>

definition persistFhirResource ::
  "world \<Rightarrow> FhirResource \<Rightarrow> string option \<Rightarrow> Diagnostics \<Rightarrow>
     Request list \<times> (Diagnostics \<times> (string \<times> gomap \<times> string) option) go" where
  "persistFhirResource w fhirResource resourceId diag =
    (let filePath = FhirResourceFilePath (fhirResourceSettings fhirResource) in
     case readFileContent w filePath diag of
       (diag, None) \<Rightarrow> ([], Return (diag, None))
     | (diag, Some fileContent) \<Rightarrow>
    (case json_Unmarshal w fileContent of
       Inl err \<Rightarrow>
         ([], Return (AddError diag (''failed to unmarshal JSON file '' @ filePath) err, None))
     | Inr fileContentJson \<Rightarrow>
    (case lookup fileContentJson ''resourceType'' of
       None \<Rightarrow>
         ([], Return (AddError diag
                (''property resourceType not found in json file '' @ filePath) [], None))
     | Some resourceType \<Rightarrow>
    (let resourceTypeStr = fmt_s w resourceType in
     case providerSettings fhirResource of
       None \<Rightarrow> ([], Panic NilPointerDereference)
     | Some ps \<Rightarrow>
    (let baseUrl =
           (case FhirResourceSettings.FhirBaseUrl (fhirResourceSettings fhirResource) of
              None \<Rightarrow> ProviderSettings.FhirBaseUrl ps
            | Some override \<Rightarrow> override) in
     case (case resourceId of
             None \<Rightarrow> Return (Sprintf_slash baseUrl resourceTypeStr, ''POST'', fileContent)
           | Some rid \<Rightarrow>
               (let parts = strings_Split rid (CHR ''/'') in
                if parts = [] then Panic IndexOutOfRange
                else case fileContentJson of
                       None \<Rightarrow> Panic AssignmentToNilMap
                     | Some m \<Rightarrow>
                         Return (Sprintf_slash baseUrl rid, ''PUT'',
                                 json_Marshal w (Some (m(''id'' \<mapsto> JString (last parts))))))) of
       Panic p \<Rightarrow> ([], Panic p)
     | Return (url, requestMethod, requestBody) \<Rightarrow>
    (case http_NewRequest w requestMethod url of
       Some err \<Rightarrow> ([], Return (AddError diag ''failed to create new request'' err, None))
     | None \<Rightarrow>
    (let postRequest =
           \<lparr>Method = requestMethod, URL = url, Body = Some requestBody,
            Header = Header_Set w
                       (fold (\<lambda>(key, val) h. Header_Set w h key val) (DefaultHeaders ps) Map.empty)
                       ''Content-Type'' ''application/json''\<rparr> in
     case Client_Do w postRequest of
       Inl err \<Rightarrow>
         ([postRequest],
          Return (AddError diag
                    (''could not post the '' @ fmt_s w resourceType @ '' on the url '' @ url)
                    err, None))
     | Inr postResponse \<Rightarrow>
    (let body = ResponseBody postResponse in
     if Status postResponse = [] then ([postRequest], Panic IndexOutOfRange)
     else if hd (Status postResponse) \<noteq> CHR ''2'' then
       ([postRequest],
        Return (AddError diag
                  (''the server returned an invalid status for the '' @ fmt_s w resourceType
                     @ '' on the url '' @ url @ '': '' @ Status postResponse)
                  body, None))
     else case json_Unmarshal w body of
       Inl err \<Rightarrow>
         ([postRequest],
          Return (AddError diag
                    (''failed to unmarshal response JSON of the resource ''
                       @ fmt_s w resourceType)
                    err, None))
     | Inr responseJson \<Rightarrow>
         ([postRequest], Return (diag, Some (body, responseJson, resourceTypeStr)))))))))))"

subsection \<open>ReadFhirResource\<close>

text \<open>
  \<open>ReadFhirResource\<close> as the source has it: its parameters are the provider settings (a
  pointer, here \<open>settings\<close>), the resource id and the diagnostics, and the URL is built
  from the base URL of the provider settings. The result is \<open>None\<close> for \<open>nil, true\<close> and
  \<open>Some body\<close> for \<open>body, false\<close>.
\<close>

definition ReadFhirResource ::
  "world \<Rightarrow> ProviderSettings option \<Rightarrow> string \<Rightarrow> Diagnostics \<Rightarrow>
     Request list \<times> (Diagnostics \<times> string option) go" where
  "ReadFhirResource w settings resourceId diag =
    (case settings of
       None \<Rightarrow> ([], Panic NilPointerDereference)
     | Some ps \<Rightarrow>
    (let url = Sprintf_slash (ProviderSettings.FhirBaseUrl ps) resourceId in
     case http_NewRequest w ''GET'' url of
       Some err \<Rightarrow>
         ([], Return (AddError diag
                (''could get the resource request using the URL '' @ url) err, None))
     | None \<Rightarrow>
    (let getRequest =
           \<lparr>Method = ''GET'', URL = url, Body = None,
            Header = Header_Set w
                       (fold (\<lambda>(key, val) h. Header_Set w h key val) (DefaultHeaders ps) Map.empty)
                       ''Content-Type'' ''application/json''\<rparr> in
     case Client_Do w getRequest of
       Inl err \<Rightarrow>
         ([getRequest],
          Return (AddError diag
                    (''could not delete the resource using the URL '' @ url) err, None))
     | Inr getResponse \<Rightarrow>
    (let body = ResponseBody getResponse in
     if Status getResponse = [] then ([getRequest], Panic IndexOutOfRange)
     else if hd (Status getResponse) \<noteq> CHR ''2'' then
       ([getRequest],
        Return (AddError diag
                  (''could not get the resource using the URL '' @ url @ ''.'')
                  (''Error code '' @ Status getResponse @ ''. Response: '' @ body), None))
     else ([getRequest], Return (diag, Some body))))))"

subsection \<open>The four operations\<close>

text \<open>
  Each operation takes the receiver \<open>r\<close> and what \<open>req.Plan.Get\<close> or \<open>req.State.Get\<close>
  gives (the diagnostics of the decoding, \<open>got\<close>, and the decoded model); the diagnostics
  of the response are empty when the framework calls the operation. Each operation gives
  the requests handed to \<open>Client.Do\<close> together with the outcome. The assignment to
  \<open>r.fhirResourceSettings\<close> is the local \<open>r'\<close>: every operation overwrites the field
  before it reads it.
\<close>

definition Create ::
  "world \<Rightarrow> FhirResource \<Rightarrow> Diagnostics \<Rightarrow> FhirResourceModel \<Rightarrow>
     Request list \<times> OperationResponse go" where
  "Create w r got data =
    (let diags = Append [] got;
         r' = r\<lparr>fhirResourceSettings :=
                  \<lparr>FhirResourceFilePath = ValueString (FilePath data),
                   FhirResourceSettings.FhirBaseUrl =
                     ValueStringPointer (FhirResourceModel.FhirBaseUrl data)\<rparr>\<rparr> in
     if HasError diags then ([], Return \<lparr>Diagnostics = diags, State = None\<rparr>)
     else case persistFhirResource w r' None diags of
       (sent, Panic p) \<Rightarrow> (sent, Panic p)
     | (sent, Return (diags, None)) \<Rightarrow> (sent, Return \<lparr>Diagnostics = diags, State = None\<rparr>)
     | (sent, Return (diags, Some (body, None, resourceType))) \<Rightarrow>
         (sent, Return \<lparr>Diagnostics = diags, State = None\<rparr>)
     | (sent, Return (diags, Some (body, Some responseJson, resourceType))) \<Rightarrow>
        (let hashString = hex_EncodeToString (sha256_Sum256 w body) in
         case assert_string (index (Some responseJson) ''id'') of
           Panic p \<Rightarrow> (sent, Panic p)
         | Return ident \<Rightarrow>
             (sent, Return \<lparr>Diagnostics = diags,
                State = Some (data\<lparr>ResourceId := StringValue (Sprintf_slash resourceType ident),
                                   ResponseSha256 := StringValue hashString\<rparr>)\<rparr>)))"

text \<open>
  \<open>Read\<close> calls \<open>ReadFhirResource\<close>. At the call the source also passes
  \<open>r.fhirResourceSettings.FhirBaseUrl\<close>; the \<open>ReadFhirResource\<close> of the source has no
  parameter for it, so the call here passes the provider settings and the resource id.
\<close>

definition Read ::
  "world \<Rightarrow> FhirResource \<Rightarrow> Diagnostics \<Rightarrow> FhirResourceModel \<Rightarrow>
     Request list \<times> OperationResponse go" where
  "Read w r got data =
    (let diags = Append [] got in
     if HasError diags then ([], Return \<lparr>Diagnostics = diags, State = None\<rparr>)
     else
     let r' = r\<lparr>fhirResourceSettings :=
                  \<lparr>FhirResourceFilePath = ValueString (FilePath data),
                   FhirResourceSettings.FhirBaseUrl =
                     ValueStringPointer (FhirResourceModel.FhirBaseUrl data)\<rparr>\<rparr> in
     case ReadFhirResource w (providerSettings r') (ValueString (ResourceId data)) diags of
       (sent, Panic p) \<Rightarrow> (sent, Panic p)
     | (sent, Return (diags, None)) \<Rightarrow> (sent, Return \<lparr>Diagnostics = diags, State = None\<rparr>)
     | (sent, Return (diags, Some body)) \<Rightarrow>
    (case json_Unmarshal w body of
       Inl err \<Rightarrow>
         (sent, Return \<lparr>Diagnostics = AddError diags
                    (''failed to unmarshal response JSON of the resource ''
                       @ ValueString (ResourceId data)) err,
                  State = None\<rparr>)
     | Inr responseJson \<Rightarrow>
    (let hashString = hex_EncodeToString (sha256_Sum256 w body) in
     case assert_string (index responseJson ''id'') of
       Panic p \<Rightarrow> (sent, Panic p)
     | Return ident \<Rightarrow>
    (case assert_string (index responseJson ''resourceType'') of
       Panic p \<Rightarrow> (sent, Panic p)
     | Return resourceType \<Rightarrow>
         (sent, Return \<lparr>Diagnostics = diags,
            State = Some (data\<lparr>ResourceId := StringValue (Sprintf_slash resourceType ident),
                               ResponseSha256 := StringValue hashString\<rparr>)\<rparr>)))))"

text \<open>\<open>Update\<close> reads the prior state first (\<open>state\<close>), then the plan (\<open>data\<close>).\<close>

definition Update ::
  "world \<Rightarrow> FhirResource \<Rightarrow> Diagnostics \<Rightarrow> FhirResourceModel \<Rightarrow>
     Diagnostics \<Rightarrow> FhirResourceModel \<Rightarrow> Request list \<times> OperationResponse go" where
  "Update w r got_state state got_plan data =
    (let diags = Append (Append [] got_state) got_plan in
     if HasError diags then ([], Return \<lparr>Diagnostics = diags, State = None\<rparr>)
     else
     let r' = r\<lparr>fhirResourceSettings :=
                  \<lparr>FhirResourceFilePath = ValueString (FilePath data),
                   FhirResourceSettings.FhirBaseUrl =
                     ValueStringPointer (FhirResourceModel.FhirBaseUrl data)\<rparr>\<rparr> in
     case persistFhirResource w r' (ValueStringPointer (ResourceId state)) diags of
       (sent, Panic p) \<Rightarrow> (sent, Panic p)
     | (sent, Return (diags, None)) \<Rightarrow> (sent, Return \<lparr>Diagnostics = diags, State = None\<rparr>)
     | (sent, Return (diags, Some (body, None, resourceType))) \<Rightarrow>
         (sent, Return \<lparr>Diagnostics = diags, State = None\<rparr>)
     | (sent, Return (diags, Some (body, Some responseJson, resourceType))) \<Rightarrow>
        (let hashString = hex_EncodeToString (sha256_Sum256 w body) in
         case assert_string (index (Some responseJson) ''id'') of
           Panic p \<Rightarrow> (sent, Panic p)
         | Return ident \<Rightarrow>
             (sent, Return \<lparr>Diagnostics = diags,
                State = Some (state\<lparr>ResourceId := StringValue (Sprintf_slash resourceType ident),
                                    ResponseSha256 := StringValue hashString,
                                    FilePath := FilePath data,
                                    FileSha256 := FileSha256 data\<rparr>)\<rparr>)))"

definition Delete ::
  "world \<Rightarrow> FhirResource \<Rightarrow> Diagnostics \<Rightarrow> FhirResourceModel \<Rightarrow>
     Request list \<times> OperationResponse go" where
  "Delete w r got data =
    (let diags = Append [] got in
     if HasError diags then ([], Return \<lparr>Diagnostics = diags, State = None\<rparr>)
     else
     let r' = r\<lparr>fhirResourceSettings :=
                  \<lparr>FhirResourceFilePath = ValueString (FilePath data),
                   FhirResourceSettings.FhirBaseUrl =
                     ValueStringPointer (FhirResourceModel.FhirBaseUrl data)\<rparr>\<rparr> in
     case providerSettings r' of
       None \<Rightarrow> ([], Panic NilPointerDereference)
     | Some ps \<Rightarrow>
    (let baseUrl =
           (case FhirResourceSettings.FhirBaseUrl (fhirResourceSettings r') of
              None \<Rightarrow> ProviderSettings.FhirBaseUrl ps
            | Some override \<Rightarrow> override);
         url = Sprintf_slash baseUrl (ValueString (ResourceId data)) in
     case http_NewRequest w ''DELETE'' url of
       Some err \<Rightarrow>
         ([], Return \<lparr>Diagnostics = AddError diags
                  (''could not create the delete request using the URL '' @ url) err,
                State = None\<rparr>)
     | None \<Rightarrow>
    (let deleteRequest =
           \<lparr>Method = ''DELETE'', URL = url, Body = None,
            Header = Header_Set w
                       (fold (\<lambda>(key, val) h. Header_Set w h key val) (DefaultHeaders ps) Map.empty)
                       ''Content-Type'' ''application/json''\<rparr> in
     case Client_Do w deleteRequest of
       Inl err \<Rightarrow>
         ([deleteRequest],
          Return \<lparr>Diagnostics = AddError diags
                    (''could not delete the resource using the URL '' @ url) err,
                  State = None\<rparr>)
     | Inr deleteResponse \<Rightarrow>
    (let body = ResponseBody deleteResponse in
     if Status deleteResponse = [] then ([deleteRequest], Panic IndexOutOfRange)
     else if hd (Status deleteResponse) \<noteq> CHR ''2'' then
       ([deleteRequest],
        Return \<lparr>Diagnostics = AddError diags
                  (''could not delete the resource using the URL '' @ url @ ''.'')
                  (''Error code '' @ Status deleteResponse @ ''. Response: '' @ body),
                State = None\<rparr>)
     else ([deleteRequest], Return \<lparr>Diagnostics = diags, State = None\<rparr>)))))"

text \<open>The receiver after the assignment to \<open>r.fhirResourceSettings\<close> that opens each operation.\<close>

abbreviation (input) with_settings :: "FhirResource \<Rightarrow> FhirResourceModel \<Rightarrow> FhirResource" where
  "with_settings r data \<equiv>
     r\<lparr>fhirResourceSettings :=
         \<lparr>FhirResourceFilePath = ValueString (FilePath data),
          FhirResourceSettings.FhirBaseUrl =
            ValueStringPointer (FhirResourceModel.FhirBaseUrl data)\<rparr>\<rparr>"

subsection \<open>A concrete world\<close>

text \<open>
  A world to run the operations in: four documents on disk, a decoder that knows them and
  two response bodies, an encoder that is left schematic, and a server that answers every
  request with \<open>200 OK\<close> and a record of type \<open>Observation\<close> with id \<open>1\<close>.
\<close>

definition patient_json :: string where
  \<open>patient_json = ''{"resourceType":"Patient"}''\<close>

definition medication_json :: string where
  \<open>medication_json = ''{"resourceType":"Medication"}''\<close>

definition blank_json :: string where
  \<open>blank_json = ''{"resourceType":""}''\<close>

definition observation_json :: string where
  \<open>observation_json = ''{"resourceType":"Observation","id":"1"}''\<close>

definition example_world :: world where
  "example_world =
     \<lparr>read_file = (\<lambda>p.
         if p = ''patient.json'' then FileBytes patient_json
         else if p = ''medication.json'' then FileBytes medication_json
         else if p = ''blank.json'' then FileBytes blank_json
         else if p = ''untyped.json'' then FileBytes ''{}''
         else OpenError ''no such file or directory''),
      json_Unmarshal = (\<lambda>b.
         if b = patient_json
           then Inr (Some [''resourceType'' \<mapsto> JString ''Patient''])
         else if b = medication_json
           then Inr (Some [''resourceType'' \<mapsto> JString ''Medication''])
         else if b = blank_json
           then Inr (Some [''resourceType'' \<mapsto> JString []])
         else if b = observation_json
           then Inr (Some [''resourceType'' \<mapsto> JString ''Observation'', ''id'' \<mapsto> JString ''1''])
         else if b = ''{}'' then Inr (Some Map.empty)
         else Inl ''invalid character''),
      json_Marshal = (\<lambda>m. ''{...}''),
      http_NewRequest = (\<lambda>m u. None),
      Client_Do = (\<lambda>rq. Inr \<lparr>Status = ''200 OK'', ResponseBody = observation_json\<rparr>),
      sha256_Sum256 = (\<lambda>b. take 4 b),
      CanonicalMIMEHeaderKey = (\<lambda>k. k),
      format_other = (\<lambda>v. ''%!s(?)'')\<rparr>"

definition example_settings :: ProviderSettings where
  "example_settings =
     \<lparr>ProviderSettings.FhirBaseUrl = ''http://fhir.example'',
      DefaultHeaders = [(''Accept'', ''application/fhir+json''), (''Content-Type'', ''text/plain'')]\<rparr>"

definition example_resource :: FhirResource where
  "example_resource =
     \<lparr>providerSettings = Some example_settings,
      fhirResourceSettings =
        \<lparr>FhirResourceFilePath = [], FhirResourceSettings.FhirBaseUrl = None\<rparr>\<rparr>"

definition example_model :: FhirResourceModel where
  "example_model =
     \<lparr>FilePath = StringValue ''patient.json'', FileSha256 = StringNull,
      FhirBaseUrl = StringNull, ResourceId = StringUnknown, ResponseSha256 = StringUnknown\<rparr>"

text \<open>
  Variations: a server that answers \<open>201 Created\<close> with the body \<open>{}\<close>, one whose
  response carries an empty status string, and one that answers \<open>404 Not Found\<close>.
\<close>

definition example_world_empty_object :: world where
  "example_world_empty_object =
     example_world\<lparr>Client_Do := (\<lambda>rq. Inr \<lparr>Status = ''201 Created'', ResponseBody = ''{}''\<rparr>)\<rparr>"

definition example_world_no_status :: world where
  "example_world_no_status =
     example_world\<lparr>Client_Do := (\<lambda>rq. Inr \<lparr>Status = [], ResponseBody = ''{}''\<rparr>)\<rparr>"

definition example_world_not_found :: world where
  "example_world_not_found =
     example_world\<lparr>Client_Do :=
       (\<lambda>rq. Inr \<lparr>Status = ''404 Not Found'', ResponseBody = ''not found''\<rparr>)\<rparr>"

text \<open>Plans for the other documents, and prior states.\<close>

definition example_model_medication :: FhirResourceModel where
  "example_model_medication =
     \<lparr>FilePath = StringValue ''medication.json'', FileSha256 = StringNull,
      FhirBaseUrl = StringNull, ResourceId = StringUnknown, ResponseSha256 = StringUnknown\<rparr>"

definition example_model_new_base :: FhirResourceModel where
  "example_model_new_base =
     \<lparr>FilePath = StringValue ''patient.json'', FileSha256 = StringValue ''5e'',
      FhirBaseUrl = StringValue ''http://new.example'',
      ResourceId = StringUnknown, ResponseSha256 = StringUnknown\<rparr>"

definition example_model_blank :: FhirResourceModel where
  "example_model_blank =
     \<lparr>FilePath = StringValue ''blank.json'', FileSha256 = StringNull,
      FhirBaseUrl = StringNull, ResourceId = StringUnknown, ResponseSha256 = StringUnknown\<rparr>"

definition example_model_untyped :: FhirResourceModel where
  "example_model_untyped =
     \<lparr>FilePath = StringValue ''untyped.json'', FileSha256 = StringNull,
      FhirBaseUrl = StringNull, ResourceId = StringUnknown, ResponseSha256 = StringUnknown\<rparr>"

definition example_state :: FhirResourceModel where
  "example_state =
     \<lparr>FilePath = StringValue ''old.json'', FileSha256 = StringValue ''00'',
      FhirBaseUrl = StringValue ''http://old.example'',
      ResourceId = StringValue ''Patient/7'', ResponseSha256 = StringValue ''ff''\<rparr>"

definition example_state_no_slash :: FhirResourceModel where
  "example_state_no_slash =
     \<lparr>FilePath = StringValue ''patient.json'', FileSha256 = StringNull,
      FhirBaseUrl = StringNull,
      ResourceId = StringValue ''abc'', ResponseSha256 = StringValue ''ff''\<rparr>"

definition example_state_empty_override :: FhirResourceModel where
  "example_state_empty_override =
     \<lparr>FilePath = StringValue ''patient.json'', FileSha256 = StringNull,
      FhirBaseUrl = StringValue [],
      ResourceId = StringValue ''Patient/7'', ResponseSha256 = StringValue ''ff''\<rparr>"

text \<open>
  A world whose encoder prints the \<open>id\<close> member of the map it is given and nothing else, so
  that the body of a request shows the id that \<open>persistFhirResource\<close> stored in the
  document; and a prior state whose identifier has a \<open>/\<close> inside its id part.
\<close>

definition example_world_id_encoder :: world where
  "example_world_id_encoder =
     example_world\<lparr>json_Marshal :=
       (\<lambda>m. case lookup m ''id'' of Some (JString s) \<Rightarrow> s | _ \<Rightarrow> [])\<rparr>"

definition example_state_inner_slash :: FhirResourceModel where
  "example_state_inner_slash =
     \<lparr>FilePath = StringValue ''patient.json'', FileSha256 = StringNull,
      FhirBaseUrl = StringNull,
      ResourceId = StringValue ''Patient/a/b'', ResponseSha256 = StringValue ''ff''\<rparr>"

section \<open>Properties\<close>

subsection \<open>Splitting an identifier, setting headers\<close>

lemma strings_Split_nonempty: "strings_Split s c \<noteq> []"
  by (induction s) (auto split: list.splits)

lemma strings_Split_no_sep: "c \<notin> set s \<Longrightarrow> strings_Split s c = [s]"
  by (induction s) auto

lemma strings_Split_sep: "c \<in> set s \<Longrightarrow> \<exists>p q qs. strings_Split s c = p # q # qs"
proof (induction s)
  case Nil
  then show ?case by simp
next
  case (Cons x s)
  obtain p ps where ps: "strings_Split s c = p # ps"
    using strings_Split_nonempty [of s c] by (cases "strings_Split s c") auto
  show ?case
  proof (cases "x = c")
    case True
    then show ?thesis using ps by simp
  next
    case False
    then have "c \<in> set s" using Cons.prems by simp
    then obtain p' q qs where "strings_Split s c = p' # q # qs"
      using Cons.IH by blast
    then show ?thesis using False by simp
  qed
qed

lemma last_strings_Split_Cons:
  "c \<in> set s \<Longrightarrow> last (strings_Split (x # s) c) = last (strings_Split s c)"
  using strings_Split_sep [of c s] by auto

lemma last_strings_Split_append:
  "c \<notin> set b \<Longrightarrow> last (strings_Split (a @ c # b) c) = b"
proof (induction a)
  case Nil
  then show ?case by (simp add: strings_Split_no_sep)
next
  case (Cons x a)
  have "c \<in> set (a @ c # b)" by simp
  then have "last (strings_Split (x # a @ c # b) c) = last (strings_Split (a @ c # b) c)"
    by (rule last_strings_Split_Cons)
  then show ?case using Cons by simp
qed

lemma last_strings_Split_rebuild:
  "c \<in> set s \<Longrightarrow> \<exists>a. s = a @ c # last (strings_Split s c)"
proof (induction s)
  case Nil
  then show ?case by simp
next
  case (Cons x s)
  show ?case
  proof (cases "c \<in> set s")
    case True
    then obtain a where a: "s = a @ c # last (strings_Split s c)"
      using Cons.IH by blast
    have "last (strings_Split (x # s) c) = last (strings_Split s c)"
      using True by (rule last_strings_Split_Cons)
    then have "x # s = (x # a) @ c # last (strings_Split (x # s) c)"
      using a by simp
    then show ?thesis by blast
  next
    case False
    then have "x = c" using Cons.prems by simp
    then have "x # s = [] @ c # last (strings_Split (x # s) c)"
      using False by (simp add: strings_Split_no_sep)
    then show ?thesis by blast
  qed
qed

lemma last_strings_Split_no_sep: "c \<notin> set (last (strings_Split s c))"
proof (induction s)
  case Nil
  then show ?case by simp
next
  case (Cons x s)
  show ?case
  proof (cases "c \<in> set s")
    case True
    then show ?thesis using Cons by (simp add: last_strings_Split_Cons del: strings_Split.simps)
  next
    case False
    then show ?thesis by (auto simp: strings_Split_no_sep)
  qed
qed

lemma Header_Set_apply:
  "Header_Set w h k v c = (if c = CanonicalMIMEHeaderKey w k then Some [v] else h c)"
  by (simp add: Header_Set_def)

lemma fold_Header_Set_value:
  "\<forall>(k, v') \<in> set hs. CanonicalMIMEHeaderKey w k = c \<longrightarrow> v' = v \<Longrightarrow>
   (\<exists>(k, v') \<in> set hs. CanonicalMIMEHeaderKey w k = c) \<or> h0 c = Some [v] \<Longrightarrow>
     fold (\<lambda>(key, val) h. Header_Set w h key val) hs h0 c = Some [v]"
proof (induction hs arbitrary: h0)
  case Nil
  then show ?case by simp
next
  case (Cons a hs)
  obtain k' v' where a: "a = (k', v')" by (cases a)
  have rest: "\<forall>(k, v') \<in> set hs. CanonicalMIMEHeaderKey w k = c \<longrightarrow> v' = v"
    using Cons.prems(1) by simp
  have "(\<exists>(k, v') \<in> set hs. CanonicalMIMEHeaderKey w k = c) \<or> Header_Set w h0 k' v' c = Some [v]"
  proof (cases "CanonicalMIMEHeaderKey w k' = c")
    case True
    then have "v' = v" using Cons.prems(1) a by simp
    then show ?thesis using True by (simp add: Header_Set_apply)
  next
    case False
    then show ?thesis using Cons.prems(2) a by (auto simp: Header_Set_apply)
  qed
  then have "fold (\<lambda>(key, val) h. Header_Set w h key val) hs (Header_Set w h0 k' v') c = Some [v]"
    using Cons.IH rest by blast
  then show ?case using a by simp
qed

lemma fold_Header_Set_dom:
  "(\<exists>(k, v) \<in> set hs. CanonicalMIMEHeaderKey w k = c) \<or> c \<in> dom h0 \<Longrightarrow>
     c \<in> dom (fold (\<lambda>(key, val) h. Header_Set w h key val) hs h0)"
proof (induction hs arbitrary: h0)
  case Nil
  then show ?case by simp
next
  case (Cons a hs)
  obtain k' v' where a: "a = (k', v')" by (cases a)
  have "(\<exists>(k, v) \<in> set hs. CanonicalMIMEHeaderKey w k = c) \<or> c \<in> dom (Header_Set w h0 k' v')"
    using Cons.prems a by (auto simp: Header_Set_apply dom_def)
  then have "c \<in> dom (fold (\<lambda>(key, val) h. Header_Set w h key val) hs (Header_Set w h0 k' v'))"
    by (rule Cons.IH)
  then show ?case using a by simp
qed

subsection \<open>The paths through persistFhirResource\<close>

text \<open>
  Either \<open>persistFhirResource\<close> stops before it hands a request to the client, with a
  panic or with \<open>nil, nil, nil\<close>, or it sends exactly one request and the outcome is
  decided by the answer.
\<close>

lemma lookup_Some_map: "lookup doc k = Some v \<Longrightarrow> \<exists>m. doc = Some m \<and> m k = Some v"
  by (cases doc) (auto simp: lookup_def)

lemma persistFhirResource_cases:
  fixes w r rid d
  defines "path \<equiv> FhirResourceFilePath (fhirResourceSettings r)"
  obtains
    (unsent) "fst (persistFhirResource w r rid d) = []"
      "(\<exists>p. snd (persistFhirResource w r rid d) = Panic p) \<or>
       (\<exists>d'. snd (persistFhirResource w r rid d) = Return (d', None))"
  | (sent) content m rt ps rq where
      "read_file w path = FileBytes content"
      "json_Unmarshal w content = Inr (Some m)"
      "m ''resourceType'' = Some rt"
      "providerSettings r = Some ps"
      "Method rq = (case rid of None \<Rightarrow> ''POST'' | Some i \<Rightarrow> ''PUT'')"
      "URL rq = Sprintf_slash
                  (case FhirResourceSettings.FhirBaseUrl (fhirResourceSettings r) of
                     None \<Rightarrow> ProviderSettings.FhirBaseUrl ps | Some override \<Rightarrow> override)
                  (case rid of None \<Rightarrow> fmt_s w rt | Some i \<Rightarrow> i)"
      "Body rq = Some (case rid of None \<Rightarrow> content
                       | Some i \<Rightarrow> json_Marshal w (Some (m(''id'' \<mapsto>
                                     JString (last (strings_Split i (CHR ''/'')))))))"
      "Header rq = Header_Set w
                     (fold (\<lambda>(key, val) h. Header_Set w h key val) (DefaultHeaders ps) Map.empty)
                     ''Content-Type'' ''application/json''"
      "http_NewRequest w (Method rq) (URL rq) = None"
      "persistFhirResource w r rid d =
         ([rq],
          case Client_Do w rq of
            Inl err \<Rightarrow>
              Return (AddError d
                        (''could not post the '' @ fmt_s w rt @ '' on the url '' @ URL rq)
                        err, None)
          | Inr postResponse \<Rightarrow>
              if Status postResponse = [] then Panic IndexOutOfRange
              else if hd (Status postResponse) \<noteq> CHR ''2'' then
                Return (AddError d
                          (''the server returned an invalid status for the '' @ fmt_s w rt
                             @ '' on the url '' @ URL rq @ '': '' @ Status postResponse)
                          (ResponseBody postResponse), None)
              else (case json_Unmarshal w (ResponseBody postResponse) of
                Inl err \<Rightarrow>
                  Return (AddError d
                            (''failed to unmarshal response JSON of the resource ''
                               @ fmt_s w rt)
                            err, None)
              | Inr responseJson \<Rightarrow>
                  Return (d, Some (ResponseBody postResponse, responseJson, fmt_s w rt))))"
proof (cases "read_file w path")
  case (OpenError e)
  then have "persistFhirResource w r rid d =
      ([], Return (AddError d (''failed to read file '' @ path) e, None))"
    by (simp add: persistFhirResource_def readFileContent_def path_def)
  then show ?thesis using unsent by simp
next
  case (ReadError e)
  then have "persistFhirResource w r rid d =
      ([], Return (AddError d (''failed to open file '' @ path) e, None))"
    by (simp add: persistFhirResource_def readFileContent_def path_def)
  then show ?thesis using unsent by simp
next
  case (FileBytes content)
  note opened = FileBytes [unfolded path_def]
  show ?thesis
  proof (cases "json_Unmarshal w content")
    case (Inl e)
    then have "persistFhirResource w r rid d =
        ([], Return (AddError d (''failed to unmarshal JSON file '' @ path) e, None))"
      using opened by (simp add: persistFhirResource_def readFileContent_def path_def)
    then show ?thesis using unsent by simp
  next
    case (Inr doc)
    note parsed = Inr
    show ?thesis
    proof (cases "lookup doc ''resourceType''")
      case None
      then have "persistFhirResource w r rid d =
          ([], Return (AddError d
                 (''property resourceType not found in json file '' @ path) [], None))"
        using opened parsed by (simp add: persistFhirResource_def readFileContent_def path_def)
      then show ?thesis using unsent by simp
    next
      case (Some rt)
      note typed = Some
      obtain m where m: "doc = Some m" and mt: "m ''resourceType'' = Some rt"
        using lookup_Some_map [OF typed] by blast
      show ?thesis
      proof (cases "providerSettings r")
        case None
        then have "persistFhirResource w r rid d = ([], Panic NilPointerDereference)"
          using opened parsed typed
          by (simp add: persistFhirResource_def readFileContent_def)
        then show ?thesis using unsent by simp
      next
        case (Some ps)
        note configured = Some
        define base where "base =
          (case FhirResourceSettings.FhirBaseUrl (fhirResourceSettings r) of
             None \<Rightarrow> ProviderSettings.FhirBaseUrl ps | Some override \<Rightarrow> override)"
        define verb where "verb = (case rid of None \<Rightarrow> ''POST'' | Some i \<Rightarrow> ''PUT'')"
        define url where "url = Sprintf_slash base (case rid of None \<Rightarrow> fmt_s w rt | Some i \<Rightarrow> i)"
        define body where "body = (case rid of None \<Rightarrow> content
                       | Some i \<Rightarrow> json_Marshal w (Some (m(''id'' \<mapsto>
                                     JString (last (strings_Split i (CHR ''/'')))))))"
        define rq where "rq = \<lparr>Method = verb, URL = url, Body = Some body,
            Header = Header_Set w
                     (fold (\<lambda>(key, val) h. Header_Set w h key val) (DefaultHeaders ps) Map.empty)
                     ''Content-Type'' ''application/json''\<rparr>"
        show ?thesis
        proof (cases "http_NewRequest w verb url")
          case (Some e)
          then have "persistFhirResource w r rid d =
              ([], Return (AddError d ''failed to create new request'' e, None))"
            using opened parsed typed configured m strings_Split_nonempty
            by (cases rid)
              (simp_all add: persistFhirResource_def readFileContent_def
                 verb_def url_def base_def)
          then show ?thesis using unsent by simp
        next
          case None
          have "persistFhirResource w r rid d =
         ([rq],
          case Client_Do w rq of
            Inl err \<Rightarrow>
              Return (AddError d
                        (''could not post the '' @ fmt_s w rt @ '' on the url '' @ URL rq)
                        err, None)
          | Inr postResponse \<Rightarrow>
              if Status postResponse = [] then Panic IndexOutOfRange
              else if hd (Status postResponse) \<noteq> CHR ''2'' then
                Return (AddError d
                          (''the server returned an invalid status for the '' @ fmt_s w rt
                             @ '' on the url '' @ URL rq @ '': '' @ Status postResponse)
                          (ResponseBody postResponse), None)
              else (case json_Unmarshal w (ResponseBody postResponse) of
                Inl err \<Rightarrow>
                  Return (AddError d
                            (''failed to unmarshal response JSON of the resource ''
                               @ fmt_s w rt)
                            err, None)
              | Inr responseJson \<Rightarrow>
                  Return (d, Some (ResponseBody postResponse, responseJson, fmt_s w rt))))"
            using opened parsed typed configured m strings_Split_nonempty None
            by (cases rid)
              (simp_all add: persistFhirResource_def readFileContent_def Let_def
                 verb_def url_def base_def rq_def body_def
                 split: sum.split)
          then have main: "persistFhirResource w r rid d =
         ([rq],
          case Client_Do w rq of
            Inl err \<Rightarrow>
              Return (AddError d
                        (''could not post the '' @ fmt_s w rt @ '' on the url '' @ URL rq)
                        err, None)
          | Inr postResponse \<Rightarrow>
              if Status postResponse = [] then Panic IndexOutOfRange
              else if hd (Status postResponse) \<noteq> CHR ''2'' then
                Return (AddError d
                          (''the server returned an invalid status for the '' @ fmt_s w rt
                             @ '' on the url '' @ URL rq @ '': '' @ Status postResponse)
                          (ResponseBody postResponse), None)
              else (case json_Unmarshal w (ResponseBody postResponse) of
                Inl err \<Rightarrow>
                  Return (AddError d
                            (''failed to unmarshal response JSON of the resource ''
                               @ fmt_s w rt)
                            err, None)
              | Inr responseJson \<Rightarrow>
                  Return (d, Some (ResponseBody postResponse, responseJson, fmt_s w rt))))" .
          have f1: "Method rq = (case rid of None \<Rightarrow> ''POST'' | Some i \<Rightarrow> ''PUT'')"
            by (simp add: rq_def verb_def)
          have f2: "URL rq = Sprintf_slash
                  (case FhirResourceSettings.FhirBaseUrl (fhirResourceSettings r) of
                     None \<Rightarrow> ProviderSettings.FhirBaseUrl ps | Some override \<Rightarrow> override)
                  (case rid of None \<Rightarrow> fmt_s w rt | Some i \<Rightarrow> i)"
            by (simp add: rq_def url_def base_def)
          have f3: "Body rq = Some (case rid of None \<Rightarrow> content
                       | Some i \<Rightarrow> json_Marshal w (Some (m(''id'' \<mapsto>
                                     JString (last (strings_Split i (CHR ''/'')))))))"
            by (simp add: rq_def body_def)
          have f4: "Header rq = Header_Set w
                     (fold (\<lambda>(key, val) h. Header_Set w h key val) (DefaultHeaders ps) Map.empty)
                     ''Content-Type'' ''application/json''"
            by (simp add: rq_def)
          have f5: "http_NewRequest w (Method rq) (URL rq) = None"
            using None by (simp add: rq_def)
          show ?thesis
            by (rule sent [OF FileBytes parsed [unfolded m] mt configured f1 f2 f3 f4 f5 main])
        qed
      qed
    qed
  qed
qed

subsection \<open>The paths through ReadFhirResource and Delete\<close>

lemma ReadFhirResource_cases:
  obtains
    (unsent) "fst (ReadFhirResource w settings resourceId d) = []"
      "(\<exists>p. snd (ReadFhirResource w settings resourceId d) = Panic p) \<or>
       (\<exists>d'. snd (ReadFhirResource w settings resourceId d) = Return (d', None))"
  | (sent) ps rq where
      "settings = Some ps"
      "Method rq = ''GET''"
      "URL rq = Sprintf_slash (ProviderSettings.FhirBaseUrl ps) resourceId"
      "Body rq = None"
      "Header rq = Header_Set w
                     (fold (\<lambda>(key, val) h. Header_Set w h key val) (DefaultHeaders ps) Map.empty)
                     ''Content-Type'' ''application/json''"
      "ReadFhirResource w settings resourceId d =
         ([rq],
          case Client_Do w rq of
            Inl err \<Rightarrow>
              Return (AddError d
                        (''could not delete the resource using the URL '' @ URL rq) err, None)
          | Inr getResponse \<Rightarrow>
              if Status getResponse = [] then Panic IndexOutOfRange
              else if hd (Status getResponse) \<noteq> CHR ''2'' then
                Return (AddError d
                          (''could not get the resource using the URL '' @ URL rq @ ''.'')
                          (''Error code '' @ Status getResponse @ ''. Response: ''
                             @ ResponseBody getResponse), None)
              else Return (d, Some (ResponseBody getResponse)))"
proof (cases settings)
  case None
  then have "ReadFhirResource w settings resourceId d = ([], Panic NilPointerDereference)"
    by (simp add: ReadFhirResource_def)
  then show ?thesis using unsent by simp
next
  case (Some ps)
  define url where "url = Sprintf_slash (ProviderSettings.FhirBaseUrl ps) resourceId"
  define rq where "rq = \<lparr>Method = ''GET'', URL = url, Body = None,
      Header = Header_Set w
                 (fold (\<lambda>(key, val) h. Header_Set w h key val) (DefaultHeaders ps) Map.empty)
                 ''Content-Type'' ''application/json''\<rparr>"
  show ?thesis
  proof (cases "http_NewRequest w ''GET'' url")
    case (Some e)
    then have "ReadFhirResource w settings resourceId d =
        ([], Return (AddError d (''could get the resource request using the URL '' @ url) e, None))"
      using \<open>settings = Some ps\<close> by (simp add: ReadFhirResource_def url_def)
    then show ?thesis using unsent by simp
  next
    case None
    have main: "ReadFhirResource w settings resourceId d =
         ([rq],
          case Client_Do w rq of
            Inl err \<Rightarrow>
              Return (AddError d
                        (''could not delete the resource using the URL '' @ URL rq) err, None)
          | Inr getResponse \<Rightarrow>
              if Status getResponse = [] then Panic IndexOutOfRange
              else if hd (Status getResponse) \<noteq> CHR ''2'' then
                Return (AddError d
                          (''could not get the resource using the URL '' @ URL rq @ ''.'')
                          (''Error code '' @ Status getResponse @ ''. Response: ''
                             @ ResponseBody getResponse), None)
              else Return (d, Some (ResponseBody getResponse)))"
      using \<open>settings = Some ps\<close> None
      by (simp add: ReadFhirResource_def Let_def url_def rq_def split: sum.split)
    have f1: "Method rq = ''GET''" by (simp add: rq_def)
    have f2: "URL rq = Sprintf_slash (ProviderSettings.FhirBaseUrl ps) resourceId"
      by (simp add: rq_def url_def)
    have f3: "Body rq = None" by (simp add: rq_def)
    have f4: "Header rq = Header_Set w
                     (fold (\<lambda>(key, val) h. Header_Set w h key val) (DefaultHeaders ps) Map.empty)
                     ''Content-Type'' ''application/json''"
      by (simp add: rq_def)
    show ?thesis by (rule sent [OF \<open>settings = Some ps\<close> f1 f2 f3 f4 main])
  qed
qed

lemma Delete_cases:
  obtains
    (unsent) "fst (Delete w r got data) = []"
      "(\<exists>p. snd (Delete w r got data) = Panic p) \<or>
       (\<exists>ds. snd (Delete w r got data) = Return \<lparr>Diagnostics = ds, State = None\<rparr>)"
  | (sent) ps rq where
      "providerSettings r = Some ps"
      "\<not> HasError (Append [] got)"
      "Method rq = ''DELETE''"
      "URL rq = Sprintf_slash
                  (case ValueStringPointer (FhirResourceModel.FhirBaseUrl data) of
                     None \<Rightarrow> ProviderSettings.FhirBaseUrl ps | Some override \<Rightarrow> override)
                  (ValueString (ResourceId data))"
      "Body rq = None"
      "Header rq = Header_Set w
                     (fold (\<lambda>(key, val) h. Header_Set w h key val) (DefaultHeaders ps) Map.empty)
                     ''Content-Type'' ''application/json''"
      "Delete w r got data =
         ([rq],
          case Client_Do w rq of
            Inl err \<Rightarrow>
              Return \<lparr>Diagnostics = AddError (Append [] got)
                        (''could not delete the resource using the URL '' @ URL rq) err,
                      State = None\<rparr>
          | Inr deleteResponse \<Rightarrow>
              if Status deleteResponse = [] then Panic IndexOutOfRange
              else if hd (Status deleteResponse) \<noteq> CHR ''2'' then
                Return \<lparr>Diagnostics = AddError (Append [] got)
                          (''could not delete the resource using the URL '' @ URL rq @ ''.'')
                          (''Error code '' @ Status deleteResponse @ ''. Response: ''
                             @ ResponseBody deleteResponse),
                        State = None\<rparr>
              else Return \<lparr>Diagnostics = Append [] got, State = None\<rparr>)"
proof (cases "HasError (Append [] got)")
  case True
  then have "Delete w r got data = ([], Return \<lparr>Diagnostics = Append [] got, State = None\<rparr>)"
    by (simp add: Delete_def)
  then show ?thesis using unsent by simp
next
  case False
  note clean = False
  show ?thesis
  proof (cases "providerSettings r")
    case None
    then have "Delete w r got data = ([], Panic NilPointerDereference)"
      using clean by (simp add: Delete_def)
    then show ?thesis using unsent by simp
  next
    case (Some ps)
    note configured = Some
    define url where "url = Sprintf_slash
                  (case ValueStringPointer (FhirResourceModel.FhirBaseUrl data) of
                     None \<Rightarrow> ProviderSettings.FhirBaseUrl ps | Some override \<Rightarrow> override)
                  (ValueString (ResourceId data))"
    define rq where "rq = \<lparr>Method = ''DELETE'', URL = url, Body = None,
      Header = Header_Set w
                 (fold (\<lambda>(key, val) h. Header_Set w h key val) (DefaultHeaders ps) Map.empty)
                 ''Content-Type'' ''application/json''\<rparr>"
    show ?thesis
    proof (cases "http_NewRequest w ''DELETE'' url")
      case (Some e)
      then have "Delete w r got data =
          ([], Return \<lparr>Diagnostics = AddError (Append [] got)
                  (''could not create the delete request using the URL '' @ url) e,
                State = None\<rparr>)"
        using clean configured by (simp add: Delete_def url_def)
      then show ?thesis using unsent by simp
    next
      case None
      have main: "Delete w r got data =
         ([rq],
          case Client_Do w rq of
            Inl err \<Rightarrow>
              Return \<lparr>Diagnostics = AddError (Append [] got)
                        (''could not delete the resource using the URL '' @ URL rq) err,
                      State = None\<rparr>
          | Inr deleteResponse \<Rightarrow>
              if Status deleteResponse = [] then Panic IndexOutOfRange
              else if hd (Status deleteResponse) \<noteq> CHR ''2'' then
                Return \<lparr>Diagnostics = AddError (Append [] got)
                          (''could not delete the resource using the URL '' @ URL rq @ ''.'')
                          (''Error code '' @ Status deleteResponse @ ''. Response: ''
                             @ ResponseBody deleteResponse),
                        State = None\<rparr>
              else Return \<lparr>Diagnostics = Append [] got, State = None\<rparr>)"
        using clean configured None
        by (simp add: Delete_def Let_def url_def rq_def split: sum.split)
      have f1: "Method rq = ''DELETE''" by (simp add: rq_def)
      have f2: "URL rq = Sprintf_slash
                  (case ValueStringPointer (FhirResourceModel.FhirBaseUrl data) of
                     None \<Rightarrow> ProviderSettings.FhirBaseUrl ps | Some override \<Rightarrow> override)
                  (ValueString (ResourceId data))"
        by (simp add: rq_def url_def)
      have f3: "Body rq = None" by (simp add: rq_def)
      have f4: "Header rq = Header_Set w
                     (fold (\<lambda>(key, val) h. Header_Set w h key val) (DefaultHeaders ps) Map.empty)
                     ''Content-Type'' ''application/json''"
        by (simp add: rq_def)
      show ?thesis by (rule sent [OF configured clean f1 f2 f3 f4 main])
    qed
  qed
qed

subsection \<open>What a saved state tells about the run\<close>

lemma persistFhirResource_success:
  assumes "persistFhirResource w r rid d = (sent, Return (d', Some (body, rj, rts)))"
  obtains content m rt ps rq rsp where
    "read_file w (FhirResourceFilePath (fhirResourceSettings r)) = FileBytes content"
    "json_Unmarshal w content = Inr (Some m)"
    "m ''resourceType'' = Some rt"
    "providerSettings r = Some ps"
    "sent = [rq]"
    "Client_Do w rq = Inr rsp"
    "Status rsp \<noteq> []"
    "hd (Status rsp) = CHR ''2''"
    "body = ResponseBody rsp"
    "json_Unmarshal w body = Inr rj"
    "rts = fmt_s w rt"
    "d' = d"
proof (cases rule: persistFhirResource_cases [of w r rid d])
  case unsent
  then show ?thesis using assms by auto
next
  case (sent content m rt ps rq)
  from sent(10) assms have sent_eq: "sent = [rq]" by simp
  from sent(10) assms obtain rsp where rsp: "Client_Do w rq = Inr rsp"
    by (cases "Client_Do w rq") auto
  from sent(10) assms rsp have st: "Status rsp \<noteq> []" "hd (Status rsp) = CHR ''2''"
    by (auto split: if_splits)
  from sent(10) assms rsp st
  have rest: "body = ResponseBody rsp" "json_Unmarshal w body = Inr rj" "rts = fmt_s w rt" "d' = d"
    by (auto split: sum.splits)
  show ?thesis
    by (rule that [OF sent(1) sent(2) sent(3) sent(4) sent_eq rsp st rest])
qed

lemma Create_saved:
  assumes "Create w r got data = (sent, Return resp)" "State resp = Some st"
  obtains body rj rts ident where
    "persistFhirResource w (with_settings r data) None (Append [] got) =
       (sent, Return (Diagnostics resp, Some (body, Some rj, rts)))"
    "rj ''id'' = Some (JString ident)"
    "st = data\<lparr>ResourceId := StringValue (Sprintf_slash rts ident),
               ResponseSha256 := StringValue (hex_EncodeToString (sha256_Sum256 w body))\<rparr>"
  using assms
  by (auto simp: Create_def Let_def index_def lookup_def assert_string_def
      split: if_splits prod.splits go.splits option.splits json.splits)

lemma Update_saved:
  assumes "Update w r got_state state got_plan data = (sent, Return resp)" "State resp = Some st"
  obtains body rj rts ident where
    "persistFhirResource w (with_settings r data) (ValueStringPointer (ResourceId state))
         (Append (Append [] got_state) got_plan) =
       (sent, Return (Diagnostics resp, Some (body, Some rj, rts)))"
    "rj ''id'' = Some (JString ident)"
    "st = state\<lparr>ResourceId := StringValue (Sprintf_slash rts ident),
               ResponseSha256 := StringValue (hex_EncodeToString (sha256_Sum256 w body)),
               FilePath := FilePath data, FileSha256 := FileSha256 data\<rparr>"
  using assms
  by (auto simp: Update_def Let_def index_def lookup_def assert_string_def
      split: if_splits prod.splits go.splits option.splits json.splits)

lemma Read_saved:
  assumes "Read w r got data = (sent, Return resp)" "State resp = Some st"
  obtains body rj rt ident where
    "ReadFhirResource w (providerSettings r) (ValueString (ResourceId data)) (Append [] got) =
       (sent, Return (Diagnostics resp, Some body))"
    "json_Unmarshal w body = Inr rj"
    "index rj ''id'' = JString ident"
    "index rj ''resourceType'' = JString rt"
    "st = data\<lparr>ResourceId := StringValue (Sprintf_slash rt ident),
               ResponseSha256 := StringValue (hex_EncodeToString (sha256_Sum256 w body))\<rparr>"
  using assms
  by (auto simp: Read_def Let_def assert_string_def
      split: if_splits prod.splits go.splits option.splits json.splits sum.splits)

lemma ReadFhirResource_success:
  assumes "ReadFhirResource w settings resourceId d = (sent, Return (d', Some body))"
  obtains ps rq rsp where
    "settings = Some ps"
    "sent = [rq]"
    "Client_Do w rq = Inr rsp"
    "Status rsp \<noteq> []"
    "hd (Status rsp) = CHR ''2''"
    "body = ResponseBody rsp"
    "d' = d"
proof (cases rule: ReadFhirResource_cases [of w settings resourceId d])
  case unsent
  then show ?thesis using assms by auto
next
  case (sent ps rq)
  from sent(6) assms have sent_eq: "sent = [rq]" by simp
  from sent(6) assms obtain rsp where rsp: "Client_Do w rq = Inr rsp"
    by (cases "Client_Do w rq") auto
  from sent(6) assms rsp have st: "Status rsp \<noteq> []" "hd (Status rsp) = CHR ''2''"
    by (auto split: if_splits)
  from sent(6) assms rsp st have rest: "body = ResponseBody rsp" "d' = d"
    by auto
  show ?thesis
    by (rule that [OF sent(1) sent_eq rsp st rest])
qed

subsection \<open>Requests sent, and two paths forward\<close>

lemma fst_Create:
  "fst (Create w r got data) =
     (if HasError (Append [] got) then []
      else fst (persistFhirResource w (with_settings r data) None (Append [] got)))"
  by (auto simp: Create_def Let_def split: prod.splits go.splits option.splits)

lemma fst_Update:
  "fst (Update w r got_state state got data) =
     (if HasError (Append (Append [] got_state) got) then []
      else fst (persistFhirResource w (with_settings r data)
                  (ValueStringPointer (ResourceId state)) (Append (Append [] got_state) got)))"
  by (auto simp: Update_def Let_def split: prod.splits go.splits option.splits)

lemma fst_Read:
  "fst (Read w r got data) =
     (if HasError (Append [] got) then []
      else fst (ReadFhirResource w (providerSettings r) (ValueString (ResourceId data))
                  (Append [] got)))"
  by (auto simp: Read_def Let_def split: prod.splits go.splits option.splits sum.splits)

lemma persistFhirResource_untyped:
  assumes "read_file w (FhirResourceFilePath (fhirResourceSettings r)) = FileBytes content"
    and "json_Unmarshal w content = Inr doc"
    and "lookup doc ''resourceType'' = None"
  shows "persistFhirResource w r rid d =
     ([], Return (AddError d
            (''property resourceType not found in json file ''
               @ FhirResourceFilePath (fhirResourceSettings r)) [], None))"
  using assms by (simp add: persistFhirResource_def readFileContent_def)

lemma persistFhirResource_put:
  assumes "read_file w (FhirResourceFilePath (fhirResourceSettings r)) = FileBytes content"
    and "json_Unmarshal w content = Inr (Some m)"
    and "m ''resourceType'' = Some rt"
    and "providerSettings r = Some ps"
    and "http_NewRequest w ''PUT''
           (Sprintf_slash
              (case FhirResourceSettings.FhirBaseUrl (fhirResourceSettings r) of
                 None \<Rightarrow> ProviderSettings.FhirBaseUrl ps | Some override \<Rightarrow> override) rid) = None"
  shows "\<exists>rq. fst (persistFhirResource w r (Some rid) d) = [rq] \<and>
           Method rq = ''PUT'' \<and>
           URL rq = Sprintf_slash
                      (case FhirResourceSettings.FhirBaseUrl (fhirResourceSettings r) of
                         None \<Rightarrow> ProviderSettings.FhirBaseUrl ps | Some override \<Rightarrow> override) rid \<and>
           Body rq = Some (json_Marshal w
                       (Some (m(''id'' \<mapsto> JString (last (strings_Split rid (CHR ''/'')))))))"
  using assms strings_Split_nonempty
  by (simp add: persistFhirResource_def readFileContent_def Let_def lookup_def split: sum.split)

lemma HasError_AddError: "HasError (AddError d s t)"
proof -
  have "\<lparr>Severity = SeverityError, Summary = s, Detail = t\<rparr> \<in> set (AddError d s t)"
    by (simp add: AddError_def)
  then show ?thesis
    unfolding HasError_def by (rule bexI [rotated]) simp
qed

subsection \<open>The request that is sent\<close>

lemma persistFhirResource_request:
  assumes "rq \<in> set (fst (persistFhirResource w r rid d))"
  obtains ps suffix where
    "providerSettings r = Some ps"
    "fst (persistFhirResource w r rid d) = [rq]"
    "URL rq = Sprintf_slash
                (case FhirResourceSettings.FhirBaseUrl (fhirResourceSettings r) of
                   None \<Rightarrow> ProviderSettings.FhirBaseUrl ps | Some override \<Rightarrow> override) suffix"
    "Header rq = Header_Set w
                   (fold (\<lambda>(key, val) h. Header_Set w h key val) (DefaultHeaders ps) Map.empty)
                   ''Content-Type'' ''application/json''"
proof (cases rule: persistFhirResource_cases [of w r rid d])
  case unsent
  then show ?thesis using assms by simp
next
  case (sent content m rt ps rq')
  from sent(10) assms have eq: "rq' = rq" by simp
  show ?thesis
    using that [OF sent(4) _ sent(6) [unfolded eq] sent(8) [unfolded eq]] sent(10) eq by simp
qed

lemma ReadFhirResource_request:
  assumes "rq \<in> set (fst (ReadFhirResource w settings resourceId d))"
  obtains ps where
    "settings = Some ps"
    "fst (ReadFhirResource w settings resourceId d) = [rq]"
    "URL rq = Sprintf_slash (ProviderSettings.FhirBaseUrl ps) resourceId"
    "Header rq = Header_Set w
                   (fold (\<lambda>(key, val) h. Header_Set w h key val) (DefaultHeaders ps) Map.empty)
                   ''Content-Type'' ''application/json''"
proof (cases rule: ReadFhirResource_cases [of w settings resourceId d])
  case unsent
  then show ?thesis using assms by simp
next
  case (sent ps rq')
  from sent(6) assms have eq: "rq' = rq" by simp
  show ?thesis
    using that [OF sent(1) _ sent(3) [unfolded eq] sent(5) [unfolded eq]] sent(6) eq by simp
qed

lemma Delete_request:
  assumes "rq \<in> set (fst (Delete w r got data))"
  obtains ps where
    "providerSettings r = Some ps"
    "fst (Delete w r got data) = [rq]"
    "URL rq = Sprintf_slash
                (case ValueStringPointer (FhirResourceModel.FhirBaseUrl data) of
                   None \<Rightarrow> ProviderSettings.FhirBaseUrl ps | Some override \<Rightarrow> override)
                (ValueString (ResourceId data))"
    "Header rq = Header_Set w
                   (fold (\<lambda>(key, val) h. Header_Set w h key val) (DefaultHeaders ps) Map.empty)
                   ''Content-Type'' ''application/json''"
proof (cases rule: Delete_cases [of w r got data])
  case unsent
  then show ?thesis using assms by simp
next
  case (sent ps rq')
  from sent(7) assms have eq: "rq' = rq" by simp
  show ?thesis
    using that [OF sent(1) _ sent(4) [unfolded eq] sent(6) [unfolded eq]] sent(7) eq by simp
qed

lemma Create_request:
  assumes "rq \<in> set (fst (Create w r got data))"
  shows "rq \<in> set (fst (persistFhirResource w (with_settings r data) None (Append [] got)))"
  using assms by (simp add: fst_Create split: if_splits)

lemma Update_request:
  assumes "rq \<in> set (fst (Update w r got_state state got data))"
  shows "rq \<in> set (fst (persistFhirResource w (with_settings r data)
                  (ValueStringPointer (ResourceId state)) (Append (Append [] got_state) got)))"
  using assms by (simp add: fst_Update split: if_splits)

lemma Read_request:
  assumes "rq \<in> set (fst (Read w r got data))"
  shows "rq \<in> set (fst (ReadFhirResource w (providerSettings r) (ValueString (ResourceId data))
                  (Append [] got)))"
  using assms by (simp add: fst_Read split: if_splits)

lemma headers_after_loop:
  fixes w hs
  defines "H \<equiv> Header_Set w (fold (\<lambda>(key, val) h. Header_Set w h key val) hs Map.empty)
                   ''Content-Type'' ''application/json''"
  shows "H (CanonicalMIMEHeaderKey w ''Content-Type'') = Some [''application/json'']"
    and "(k, v) \<in> set hs \<Longrightarrow> CanonicalMIMEHeaderKey w k \<in> dom H"
    and "(k, v) \<in> set hs \<Longrightarrow>
         CanonicalMIMEHeaderKey w k \<noteq> CanonicalMIMEHeaderKey w ''Content-Type'' \<Longrightarrow>
         \<forall>(k', v') \<in> set hs. CanonicalMIMEHeaderKey w k' = CanonicalMIMEHeaderKey w k \<longrightarrow> v' = v \<Longrightarrow>
         H (CanonicalMIMEHeaderKey w k) = Some [v]"
proof -
  show "H (CanonicalMIMEHeaderKey w ''Content-Type'') = Some [''application/json'']"
    by (simp add: H_def Header_Set_apply)
next
  assume kv: "(k, v) \<in> set hs"
  then have "CanonicalMIMEHeaderKey w k
      \<in> dom (fold (\<lambda>(key, val) h. Header_Set w h key val) hs Map.empty)"
    by (intro fold_Header_Set_dom) auto
  then show "CanonicalMIMEHeaderKey w k \<in> dom H"
    by (auto simp: H_def Header_Set_apply dom_def)
next
  assume kv: "(k, v) \<in> set hs"
    and other: "CanonicalMIMEHeaderKey w k \<noteq> CanonicalMIMEHeaderKey w ''Content-Type''"
    and same: "\<forall>(k', v') \<in> set hs.
                 CanonicalMIMEHeaderKey w k' = CanonicalMIMEHeaderKey w k \<longrightarrow> v' = v"
  have "fold (\<lambda>(key, val) h. Header_Set w h key val) hs Map.empty
          (CanonicalMIMEHeaderKey w k) = Some [v]"
    using same kv by (intro fold_Header_Set_value) auto
  then show "H (CanonicalMIMEHeaderKey w k) = Some [v]"
    using other by (simp add: H_def Header_Set_apply)
qed

subsection \<open>The status of the answer\<close>

lemma persistFhirResource_status:
  assumes "fst (persistFhirResource w r rid d) = [rq]" and "Client_Do w rq = Inr rsp"
  shows "(snd (persistFhirResource w r rid d) = Panic IndexOutOfRange) = (Status rsp = [])"
    and "Status rsp \<noteq> [] \<Longrightarrow> hd (Status rsp) \<noteq> CHR ''2'' \<Longrightarrow>
           \<exists>d'. snd (persistFhirResource w r rid d) = Return (d', None) \<and> HasError d'"
proof -
  obtain rt where main: "persistFhirResource w r rid d =
         ([rq],
          if Status rsp = [] then Panic IndexOutOfRange
          else if hd (Status rsp) \<noteq> CHR ''2'' then
            Return (AddError d
                      (''the server returned an invalid status for the '' @ fmt_s w rt
                         @ '' on the url '' @ URL rq @ '': '' @ Status rsp)
                      (ResponseBody rsp), None)
          else (case json_Unmarshal w (ResponseBody rsp) of
            Inl err \<Rightarrow>
              Return (AddError d
                        (''failed to unmarshal response JSON of the resource '' @ fmt_s w rt)
                        err, None)
          | Inr responseJson \<Rightarrow>
              Return (d, Some (ResponseBody rsp, responseJson, fmt_s w rt))))"
  proof (cases rule: persistFhirResource_cases [of w r rid d])
    case unsent
    then show ?thesis using assms by simp
  next
    case (sent content m rt ps rq')
    from sent(10) assms(1) have "rq' = rq" by simp
    then show ?thesis using that [of rt] sent(10) assms(2) by simp
  qed
  show "(snd (persistFhirResource w r rid d) = Panic IndexOutOfRange) = (Status rsp = [])"
    by (simp add: main split: sum.split)
  show "\<exists>d'. snd (persistFhirResource w r rid d) = Return (d', None) \<and> HasError d'"
    if "Status rsp \<noteq> []" "hd (Status rsp) \<noteq> CHR ''2''"
    using that by (simp add: main HasError_AddError)
qed

lemma ReadFhirResource_status:
  assumes "fst (ReadFhirResource w settings resourceId d) = [rq]" and "Client_Do w rq = Inr rsp"
  shows "(snd (ReadFhirResource w settings resourceId d) = Panic IndexOutOfRange) =
           (Status rsp = [])"
    and "Status rsp \<noteq> [] \<Longrightarrow> hd (Status rsp) \<noteq> CHR ''2'' \<Longrightarrow>
           \<exists>d'. snd (ReadFhirResource w settings resourceId d) = Return (d', None) \<and> HasError d'"
    and "Status rsp \<noteq> [] \<Longrightarrow> hd (Status rsp) = CHR ''2'' \<Longrightarrow>
           snd (ReadFhirResource w settings resourceId d) = Return (d, Some (ResponseBody rsp))"
proof -
  have main: "ReadFhirResource w settings resourceId d =
         ([rq],
          if Status rsp = [] then Panic IndexOutOfRange
          else if hd (Status rsp) \<noteq> CHR ''2'' then
            Return (AddError d
                      (''could not get the resource using the URL '' @ URL rq @ ''.'')
                      (''Error code '' @ Status rsp @ ''. Response: '' @ ResponseBody rsp), None)
          else Return (d, Some (ResponseBody rsp)))"
  proof (cases rule: ReadFhirResource_cases [of w settings resourceId d])
    case unsent
    then show ?thesis using assms by simp
  next
    case (sent ps rq')
    from sent(6) assms(1) have "rq' = rq" by simp
    then show ?thesis using sent(6) assms(2) by simp
  qed
  show "(snd (ReadFhirResource w settings resourceId d) = Panic IndexOutOfRange) =
           (Status rsp = [])"
    by (simp add: main)
  show "\<exists>d'. snd (ReadFhirResource w settings resourceId d) = Return (d', None) \<and> HasError d'"
    if "Status rsp \<noteq> []" "hd (Status rsp) \<noteq> CHR ''2''"
    using that by (simp add: main HasError_AddError)
  show "snd (ReadFhirResource w settings resourceId d) = Return (d, Some (ResponseBody rsp))"
    if "Status rsp \<noteq> []" "hd (Status rsp) = CHR ''2''"
    using that by (simp add: main)
qed

lemma Delete_status:
  assumes "fst (Delete w r got data) = [rq]" and "Client_Do w rq = Inr rsp"
  shows "(snd (Delete w r got data) = Panic IndexOutOfRange) = (Status rsp = [])"
    and "Status rsp \<noteq> [] \<Longrightarrow> hd (Status rsp) \<noteq> CHR ''2'' \<Longrightarrow>
           \<exists>ds. snd (Delete w r got data) = Return \<lparr>Diagnostics = ds, State = None\<rparr> \<and>
                HasError ds"
    and "Status rsp \<noteq> [] \<Longrightarrow> hd (Status rsp) = CHR ''2'' \<Longrightarrow>
           snd (Delete w r got data) = Return \<lparr>Diagnostics = Append [] got, State = None\<rparr>"
proof -
  have main: "Delete w r got data =
         ([rq],
          if Status rsp = [] then Panic IndexOutOfRange
          else if hd (Status rsp) \<noteq> CHR ''2'' then
            Return \<lparr>Diagnostics = AddError (Append [] got)
                      (''could not delete the resource using the URL '' @ URL rq @ ''.'')
                      (''Error code '' @ Status rsp @ ''. Response: '' @ ResponseBody rsp),
                    State = None\<rparr>
          else Return \<lparr>Diagnostics = Append [] got, State = None\<rparr>)"
  proof (cases rule: Delete_cases [of w r got data])
    case unsent
    then show ?thesis using assms by simp
  next
    case (sent ps rq')
    from sent(7) assms(1) have "rq' = rq" by simp
    then show ?thesis using sent(7) assms(2) by simp
  qed
  show "(snd (Delete w r got data) = Panic IndexOutOfRange) = (Status rsp = [])"
    by (simp add: main)
  show "\<exists>ds. snd (Delete w r got data) = Return \<lparr>Diagnostics = ds, State = None\<rparr> \<and> HasError ds"
    if "Status rsp \<noteq> []" "hd (Status rsp) \<noteq> CHR ''2''"
    using that by (simp add: main HasError_AddError)
  show "snd (Delete w r got data) = Return \<lparr>Diagnostics = Append [] got, State = None\<rparr>"
    if "Status rsp \<noteq> []" "hd (Status rsp) = CHR ''2''"
    using that by (simp add: main)
qed

lemma snd_Create:
  assumes "\<not> HasError (Append [] got)"
  shows "(snd (Create w r got data) = Panic IndexOutOfRange) =
           (snd (persistFhirResource w (with_settings r data) None (Append [] got)) =
              Panic IndexOutOfRange)"
    and "snd (persistFhirResource w (with_settings r data) None (Append [] got)) =
           Return (d', None) \<Longrightarrow>
         snd (Create w r got data) = Return \<lparr>Diagnostics = d', State = None\<rparr>"
  using assms
  by (auto simp: Create_def Let_def assert_string_def
      split: prod.splits go.splits option.splits json.splits)

lemma snd_Update:
  assumes "\<not> HasError (Append (Append [] got_state) got)"
  shows "(snd (Update w r got_state state got data) = Panic IndexOutOfRange) =
           (snd (persistFhirResource w (with_settings r data)
                   (ValueStringPointer (ResourceId state))
                   (Append (Append [] got_state) got)) = Panic IndexOutOfRange)"
    and "snd (persistFhirResource w (with_settings r data)
                (ValueStringPointer (ResourceId state))
                (Append (Append [] got_state) got)) = Return (d', None) \<Longrightarrow>
         snd (Update w r got_state state got data) = Return \<lparr>Diagnostics = d', State = None\<rparr>"
  using assms
  by (auto simp: Update_def Let_def assert_string_def
      split: prod.splits go.splits option.splits json.splits)

lemma snd_Read:
  assumes "\<not> HasError (Append [] got)"
  shows "(snd (Read w r got data) = Panic IndexOutOfRange) =
           (snd (ReadFhirResource w (providerSettings r) (ValueString (ResourceId data))
                   (Append [] got)) = Panic IndexOutOfRange)"
    and "snd (ReadFhirResource w (providerSettings r) (ValueString (ResourceId data))
                (Append [] got)) = Return (d', None) \<Longrightarrow>
         snd (Read w r got data) = Return \<lparr>Diagnostics = d', State = None\<rparr>"
  using assms
  by (auto simp: Read_def Let_def assert_string_def
      split: prod.splits go.splits option.splits json.splits sum.splits)

section \<open>The claims\<close>

subsection \<open>C1: the identifier codec\<close>

text \<open>
  C1, as amended. The code has one place that takes an identifier apart: \<open>Update\<close>, through
  \<open>persistFhirResource\<close>, splits the prior identifier at every \<open>/\<close> and stores the last
  segment as \<open>id\<close> in the document it sends; no type is read from the identifier. When the
  document is readable, decodes to an object with a \<open>resourceType\<close>, the provider is
  configured and the request can be built, \<open>Update\<close> sends exactly one request, a \<open>PUT\<close>
  whose body is the document with \<open>id\<close> set to a bare id such that: the bare id contains
  no \<open>/\<close>; an identifier that contains a \<open>/\<close> is \<open>"{prefix}/{bare id}"\<close> for some
  prefix; and whenever the identifier is \<open>"{type}/{id}"\<close> for an id without \<open>/\<close>, the bare
  id is that id.
\<close>

theorem Update_bare_id_last_segment:
  assumes "ResourceId state = StringValue rid"
    and "\<not> HasError (Append (Append [] got_state) got)"
    and "read_file w (ValueString (FilePath data)) = FileBytes content"
    and "json_Unmarshal w content = Inr (Some m)"
    and "m ''resourceType'' = Some rt"
    and "providerSettings r = Some ps"
    and "http_NewRequest w ''PUT''
           (Sprintf_slash
              (case ValueStringPointer (FhirResourceModel.FhirBaseUrl data) of
                 None \<Rightarrow> ProviderSettings.FhirBaseUrl ps | Some override \<Rightarrow> override) rid) = None"
  shows "\<exists>rq bare.
           fst (Update w r got_state state got data) = [rq] \<and>
           Method rq = ''PUT'' \<and>
           Body rq = Some (json_Marshal w (Some (m(''id'' \<mapsto> JString bare)))) \<and>
           CHR ''/'' \<notin> set bare \<and>
           (CHR ''/'' \<in> set rid \<longrightarrow> (\<exists>prefix. rid = Sprintf_slash prefix bare)) \<and>
           (\<forall>ty ident. rid = Sprintf_slash ty ident \<and> CHR ''/'' \<notin> set ident \<longrightarrow> bare = ident)"
proof -
  let ?bare = "last (strings_Split rid (CHR ''/''))"
  have "\<exists>rq. fst (persistFhirResource w (with_settings r data) (Some rid)
                    (Append (Append [] got_state) got)) = [rq] \<and>
           Method rq = ''PUT'' \<and>
           URL rq = Sprintf_slash
                      (case FhirResourceSettings.FhirBaseUrl
                              (fhirResourceSettings (with_settings r data)) of
                         None \<Rightarrow> ProviderSettings.FhirBaseUrl ps | Some override \<Rightarrow> override) rid \<and>
           Body rq = Some (json_Marshal w (Some (m(''id'' \<mapsto> JString ?bare))))"
    using assms(3-7) by (intro persistFhirResource_put) simp_all
  then obtain rq where rq: "fst (Update w r got_state state got data) = [rq]"
      "Method rq = ''PUT''"
      "Body rq = Some (json_Marshal w (Some (m(''id'' \<mapsto> JString ?bare))))"
    using assms(1,2) by (auto simp: fst_Update ValueStringPointer_def)
  have no_sep: "CHR ''/'' \<notin> set ?bare"
    by (rule last_strings_Split_no_sep)
  have rebuild: "CHR ''/'' \<in> set rid \<longrightarrow> (\<exists>prefix. rid = Sprintf_slash prefix ?bare)"
    using last_strings_Split_rebuild [of "CHR ''/''" rid] by (simp add: Sprintf_slash_def)
  have readback: "\<forall>ty ident. rid = Sprintf_slash ty ident \<and> CHR ''/'' \<notin> set ident \<longrightarrow> ?bare = ident"
    using last_strings_Split_append [of "CHR ''/''"] by (simp add: Sprintf_slash_def)
  from rq no_sep rebuild readback show ?thesis by blast
qed

text \<open>
  The theorem for an update of \<open>Patient/7\<close> in the concrete world: the id stored in the
  document is \<open>7\<close>.
\<close>

theorem Update_bare_id_last_segment_witness:
  "ResourceId example_state = StringValue ''Patient/7'' \<and>
   \<not> HasError (Append (Append [] []) []) \<and>
   read_file example_world (ValueString (FilePath example_model)) = FileBytes patient_json \<and>
   json_Unmarshal example_world patient_json =
     Inr (Some [''resourceType'' \<mapsto> JString ''Patient'']) \<and>
   [''resourceType'' \<mapsto> JString ''Patient''] ''resourceType'' = Some (JString ''Patient'') \<and>
   providerSettings example_resource = Some example_settings \<and>
   http_NewRequest example_world ''PUT''
     (Sprintf_slash
        (case ValueStringPointer (FhirResourceModel.FhirBaseUrl example_model) of
           None \<Rightarrow> ProviderSettings.FhirBaseUrl example_settings
         | Some override \<Rightarrow> override) ''Patient/7'') = None \<and>
   ''Patient/7'' = Sprintf_slash ''Patient'' ''7'' \<and> CHR ''/'' \<notin> set ''7'' \<and>
   (\<exists>rq. fst (Update example_world example_resource [] example_state [] example_model) = [rq] \<and>
         Method rq = ''PUT'' \<and>
         Body rq = Some (json_Marshal example_world
                      (Some ([''resourceType'' \<mapsto> JString ''Patient'']
                               (''id'' \<mapsto> JString ''7'')))))"
proof -
  have h1: "ResourceId example_state = StringValue ''Patient/7''"
    by (simp add: example_state_def)
  have h2: "\<not> HasError (Append (Append [] []) [])" by (simp add: HasError_def)
  have h3: "read_file example_world (ValueString (FilePath example_model)) = FileBytes patient_json"
    by (simp add: example_world_def example_model_def ValueString_def)
  have h4: "json_Unmarshal example_world patient_json =
     Inr (Some [''resourceType'' \<mapsto> JString ''Patient''])"
    by (simp add: example_world_def)
  have h5: "[''resourceType'' \<mapsto> JString ''Patient''] ''resourceType'' = Some (JString ''Patient'')"
    by simp
  have h6: "providerSettings example_resource = Some example_settings"
    by (simp add: example_resource_def)
  have h7: "http_NewRequest example_world ''PUT''
     (Sprintf_slash
        (case ValueStringPointer (FhirResourceModel.FhirBaseUrl example_model) of
           None \<Rightarrow> ProviderSettings.FhirBaseUrl example_settings
         | Some override \<Rightarrow> override) ''Patient/7'') = None"
    by (simp add: example_world_def)
  have h8: "''Patient/7'' = Sprintf_slash ''Patient'' ''7''" and h9: "CHR ''/'' \<notin> set ''7''"
    by (simp_all add: Sprintf_slash_def)
  from Update_bare_id_last_segment [OF h1 h2 h3 h4 h5 h6 h7]
  obtain rq bare where
    rq: "fst (Update example_world example_resource [] example_state [] example_model) = [rq]"
      "Method rq = ''PUT''"
      "Body rq = Some (json_Marshal example_world
                  (Some ([''resourceType'' \<mapsto> JString ''Patient''](''id'' \<mapsto> JString bare))))"
    and readback: "\<forall>ty ident. ''Patient/7'' = Sprintf_slash ty ident \<and> CHR ''/'' \<notin> set ident
                 \<longrightarrow> bare = ident"
    by blast
  from readback h8 h9 have "bare = ''7''" by blast
  with rq have c: "\<exists>rq. fst (Update example_world example_resource [] example_state []
                              example_model) = [rq] \<and>
         Method rq = ''PUT'' \<and>
         Body rq = Some (json_Marshal example_world
                      (Some ([''resourceType'' \<mapsto> JString ''Patient'']
                               (''id'' \<mapsto> JString ''7''))))"
    by blast
  from h1 h2 h3 h4 h5 h6 h7 h8 h9 c show ?thesis by (intro conjI)
qed

text \<open>
  C1 as stated fails: an id that contains \<open>/\<close> is not preserved. For the prior identifier
  \<open>Patient/a/b\<close>, built from the type \<open>Patient\<close> and the id \<open>a/b\<close>, \<open>Update\<close> sends
  its \<open>PUT\<close> to \<open>http://fhir.example/Patient/a/b\<close> with the \<open>id\<close> of the document set to
  \<open>b\<close> (the encoder of this world prints the \<open>id\<close> member alone).
\<close>

theorem Update_inner_slash_counterexample:
  "ResourceId example_state_inner_slash = StringValue (Sprintf_slash ''Patient'' ''a/b'') \<and>
   map Method (fst (Update example_world_id_encoder example_resource []
                      example_state_inner_slash [] example_model)) = [''PUT''] \<and>
   map URL (fst (Update example_world_id_encoder example_resource []
                   example_state_inner_slash [] example_model)) =
     [''http://fhir.example/Patient/a/b''] \<and>
   map Body (fst (Update example_world_id_encoder example_resource []
                    example_state_inner_slash [] example_model)) = [Some ''b''] \<and>
   ''b'' \<noteq> ''a/b''"
  by (simp add: patient_json_def medication_json_def blank_json_def
        observation_json_def example_world_def example_world_id_encoder_def
        example_settings_def example_resource_def example_model_def
        example_state_inner_slash_def Update_def persistFhirResource_def
        readFileContent_def ValueString_def ValueStringPointer_def
        HasError_def lookup_def index_def assert_string_def fmt_s_def
        Sprintf_slash_def Header_Set_def hex_EncodeToString_def hextable_def
        AddError_def Let_def)

subsection \<open>C2: a response without a string id\<close>

text \<open>
  C2. The claim asks for a diagnostic when a 2xx response lacks a string \<open>id\<close> (or, on
  \<open>Read\<close>, a string \<open>resourceType\<close>). The code reads these fields with the unchecked
  assertion \<open>.(string)\<close>: in the world whose server answers \<open>201 Created\<close> with the body
  \<open>{}\<close>, \<open>Create\<close>, \<open>Update\<close> and \<open>Read\<close> each end in the panic of a failed interface
  conversion, after the request has been sent, and hand no diagnostic back.
\<close>

theorem missing_id_panics:
  "snd (Create example_world_empty_object example_resource [] example_model) =
     Panic InterfaceConversion \<and>
   snd (Update example_world_empty_object example_resource [] example_state [] example_model) =
     Panic InterfaceConversion \<and>
   snd (Read example_world_empty_object example_resource [] example_state) =
     Panic InterfaceConversion"
  by (simp add: patient_json_def medication_json_def blank_json_def
        observation_json_def example_world_def example_world_empty_object_def
        example_settings_def example_resource_def example_model_def
        example_state_def Create_def persistFhirResource_def
        readFileContent_def ValueString_def ValueStringPointer_def
        HasError_def lookup_def index_def assert_string_def fmt_s_def
        Sprintf_slash_def Header_Set_def hex_EncodeToString_def hextable_def
        AddError_def Let_def Update_def Read_def ReadFhirResource_def)

subsection \<open>C3: an identifier without a slash\<close>

text \<open>
  C3, as amended. An identifier without \<open>/\<close> is not rejected: \<open>strings.Split\<close> gives the
  one-element list of the whole string, so \<open>Update\<close> takes the whole identifier as the bare
  id. When the document is readable, decodes to an object with a \<open>resourceType\<close>, the
  provider is configured and the request can be built, \<open>Update\<close> sends exactly one request:
  a \<open>PUT\<close> to \<open>{baseUrl}/{identifier}\<close> whose body is the document with \<open>id\<close> set to the
  whole identifier.
\<close>

theorem Update_identifier_without_slash:
  assumes "CHR ''/'' \<notin> set rid"
    and "ResourceId state = StringValue rid"
    and "\<not> HasError (Append (Append [] got_state) got)"
    and "read_file w (ValueString (FilePath data)) = FileBytes content"
    and "json_Unmarshal w content = Inr (Some m)"
    and "m ''resourceType'' = Some rt"
    and "providerSettings r = Some ps"
    and "http_NewRequest w ''PUT''
           (Sprintf_slash
              (case ValueStringPointer (FhirResourceModel.FhirBaseUrl data) of
                 None \<Rightarrow> ProviderSettings.FhirBaseUrl ps | Some override \<Rightarrow> override) rid) = None"
  shows "\<exists>rq. fst (Update w r got_state state got data) = [rq] \<and>
           Method rq = ''PUT'' \<and>
           URL rq = Sprintf_slash
                      (case ValueStringPointer (FhirResourceModel.FhirBaseUrl data) of
                         None \<Rightarrow> ProviderSettings.FhirBaseUrl ps | Some override \<Rightarrow> override) rid \<and>
           Body rq = Some (json_Marshal w (Some (m(''id'' \<mapsto> JString rid))))"
proof -
  have whole: "last (strings_Split rid (CHR ''/'')) = rid"
    using assms(1) by (simp add: strings_Split_no_sep)
  have "\<exists>rq. fst (persistFhirResource w (with_settings r data) (Some rid)
                    (Append (Append [] got_state) got)) = [rq] \<and>
           Method rq = ''PUT'' \<and>
           URL rq = Sprintf_slash
                      (case FhirResourceSettings.FhirBaseUrl
                              (fhirResourceSettings (with_settings r data)) of
                         None \<Rightarrow> ProviderSettings.FhirBaseUrl ps | Some override \<Rightarrow> override) rid \<and>
           Body rq = Some (json_Marshal w
                       (Some (m(''id'' \<mapsto> JString (last (strings_Split rid (CHR ''/'')))))))"
    using assms(4-8) by (intro persistFhirResource_put) simp_all
  then show ?thesis
    using assms(2,3) whole by (simp add: fst_Update ValueStringPointer_def)
qed

text \<open>The theorem for the prior identifier \<open>abc\<close> in the concrete world.\<close>

theorem Update_identifier_without_slash_witness:
  "CHR ''/'' \<notin> set ''abc'' \<and>
   ResourceId example_state_no_slash = StringValue ''abc'' \<and>
   \<not> HasError (Append (Append [] []) []) \<and>
   read_file example_world (ValueString (FilePath example_model)) = FileBytes patient_json \<and>
   json_Unmarshal example_world patient_json =
     Inr (Some [''resourceType'' \<mapsto> JString ''Patient'']) \<and>
   [''resourceType'' \<mapsto> JString ''Patient''] ''resourceType'' = Some (JString ''Patient'') \<and>
   providerSettings example_resource = Some example_settings \<and>
   http_NewRequest example_world ''PUT''
     (Sprintf_slash
        (case ValueStringPointer (FhirResourceModel.FhirBaseUrl example_model) of
           None \<Rightarrow> ProviderSettings.FhirBaseUrl example_settings
         | Some override \<Rightarrow> override) ''abc'') = None \<and>
   (\<exists>rq. fst (Update example_world example_resource [] example_state_no_slash [] example_model)
           = [rq] \<and>
         Method rq = ''PUT'' \<and>
         URL rq = Sprintf_slash
                    (case ValueStringPointer (FhirResourceModel.FhirBaseUrl example_model) of
                       None \<Rightarrow> ProviderSettings.FhirBaseUrl example_settings
                     | Some override \<Rightarrow> override) ''abc'' \<and>
         Body rq = Some (json_Marshal example_world
                      (Some ([''resourceType'' \<mapsto> JString ''Patient'']
                               (''id'' \<mapsto> JString ''abc'')))))"
proof -
  have h1: "CHR ''/'' \<notin> set ''abc''" by simp
  have h2: "ResourceId example_state_no_slash = StringValue ''abc''"
    by (simp add: patient_json_def medication_json_def blank_json_def
        observation_json_def example_world_def example_settings_def
        example_resource_def example_model_def example_state_no_slash_def)
  have h3: "\<not> HasError (Append (Append [] []) [])" by (simp add: HasError_def)
  have h4: "read_file example_world (ValueString (FilePath example_model)) = FileBytes patient_json"
    by (simp add: example_world_def example_model_def ValueString_def)
  have h5: "json_Unmarshal example_world patient_json =
     Inr (Some [''resourceType'' \<mapsto> JString ''Patient''])"
    by (simp add: example_world_def)
  have h6: "[''resourceType'' \<mapsto> JString ''Patient''] ''resourceType'' = Some (JString ''Patient'')"
    by simp
  have h7: "providerSettings example_resource = Some example_settings"
    by (simp add: example_resource_def)
  have h8: "http_NewRequest example_world ''PUT''
     (Sprintf_slash
        (case ValueStringPointer (FhirResourceModel.FhirBaseUrl example_model) of
           None \<Rightarrow> ProviderSettings.FhirBaseUrl example_settings
         | Some override \<Rightarrow> override) ''abc'') = None"
    by (simp add: example_world_def)
  from Update_identifier_without_slash [OF h1 h2 h3 h4 h5 h6 h7 h8] h1 h2 h3 h4 h5 h6 h7 h8
  show ?thesis by (intro conjI)
qed

text \<open>
  C3 as stated fails: with the prior identifier \<open>abc\<close> the operation does not abort; it
  sends the \<open>PUT\<close> to \<open>http://fhir.example/abc\<close> and saves a state, with no diagnostic.
\<close>

theorem Update_identifier_without_slash_counterexample:
  "map Method (fst (Update example_world example_resource [] example_state_no_slash []
                      example_model)) = [''PUT''] \<and>
   map URL (fst (Update example_world example_resource [] example_state_no_slash []
                   example_model)) = [''http://fhir.example/abc''] \<and>
   snd (Update example_world example_resource [] example_state_no_slash [] example_model) =
     Return \<lparr>Diagnostics = [],
             State = Some \<lparr>FilePath = StringValue ''patient.json'', FileSha256 = StringNull,
                           FhirBaseUrl = StringNull, ResourceId = StringValue ''Patient/1'',
                           ResponseSha256 = StringValue ''7b227265''\<rparr>\<rparr>"
  by (simp add: patient_json_def medication_json_def blank_json_def
        observation_json_def example_world_def example_settings_def
        example_resource_def example_model_def example_state_no_slash_def
        Create_def persistFhirResource_def readFileContent_def ValueString_def
        ValueStringPointer_def HasError_def lookup_def index_def
        assert_string_def fmt_s_def Sprintf_slash_def Header_Set_def
        hex_EncodeToString_def hextable_def AddError_def Let_def Update_def)

subsection \<open>C4: the identifier that Update returns\<close>

text \<open>
  C4, as amended. For every successful \<open>Update\<close>, the saved identifier is
  \<open>"{type}/{id}"\<close> where the id is the string \<open>id\<close> of the decoded response and the type is
  the \<open>resourceType\<close> of the local document, as \<open>%s\<close> prints it (the value
  \<open>persistFhirResource\<close> returns), not the \<open>resourceType\<close> of the response.
\<close>

theorem Update_identifier_from_document:
  assumes "Update w r got_state state got data = (sent, Return resp)"
    and "State resp = Some st"
  shows "\<exists>content m rt rq rsp rj ident.
           read_file w (ValueString (FilePath data)) = FileBytes content \<and>
           json_Unmarshal w content = Inr (Some m) \<and>
           m ''resourceType'' = Some rt \<and>
           sent = [rq] \<and>
           Client_Do w rq = Inr rsp \<and>
           json_Unmarshal w (ResponseBody rsp) = Inr (Some rj) \<and>
           rj ''id'' = Some (JString ident) \<and>
           ResourceId st = StringValue (Sprintf_slash (fmt_s w rt) ident)"
proof -
  from assms obtain body rj rts ident where
    p: "persistFhirResource w (with_settings r data) (ValueStringPointer (ResourceId state))
          (Append (Append [] got_state) got) =
          (sent, Return (Diagnostics resp, Some (body, Some rj, rts)))" and
    ident: "rj ''id'' = Some (JString ident)" and
    st: "st = state\<lparr>ResourceId := StringValue (Sprintf_slash rts ident),
               ResponseSha256 := StringValue (hex_EncodeToString (sha256_Sum256 w body)),
               FilePath := FilePath data, FileSha256 := FileSha256 data\<rparr>"
    by (rule Update_saved)
  from p obtain content m rt rq rsp where
    "read_file w (FhirResourceFilePath (fhirResourceSettings (with_settings r data))) =
       FileBytes content"
    "json_Unmarshal w content = Inr (Some m)"
    "m ''resourceType'' = Some rt"
    "sent = [rq]"
    "Client_Do w rq = Inr rsp"
    "body = ResponseBody rsp"
    "json_Unmarshal w body = Inr (Some rj)"
    "rts = fmt_s w rt"
    by (rule persistFhirResource_success)
  then show ?thesis using ident st by auto
qed

text \<open>The theorem for an update of \<open>Patient/7\<close> from \<open>patient.json\<close> in the concrete world.\<close>

theorem Update_identifier_from_document_witness:
  "Update example_world example_resource [] example_state [] example_model =
     (fst (Update example_world example_resource [] example_state [] example_model),
      Return \<lparr>Diagnostics = [],
              State = Some \<lparr>FilePath = StringValue ''patient.json'', FileSha256 = StringNull,
                            FhirBaseUrl = StringValue ''http://old.example'',
                            ResourceId = StringValue ''Patient/1'',
                            ResponseSha256 = StringValue ''7b227265''\<rparr>\<rparr>) \<and>
   (\<exists>content m rt rq rsp rj ident.
      read_file example_world (ValueString (FilePath example_model)) = FileBytes content \<and>
      json_Unmarshal example_world content = Inr (Some m) \<and>
      m ''resourceType'' = Some rt \<and>
      fst (Update example_world example_resource [] example_state [] example_model) = [rq] \<and>
      Client_Do example_world rq = Inr rsp \<and>
      json_Unmarshal example_world (ResponseBody rsp) = Inr (Some rj) \<and>
      rj ''id'' = Some (JString ident) \<and>
      StringValue ''Patient/1'' = StringValue (Sprintf_slash (fmt_s example_world rt) ident))"
proof -
  let ?u = "Update example_world example_resource [] example_state [] example_model"
  let ?s = "\<lparr>FilePath = StringValue ''patient.json'', FileSha256 = StringNull,
            FhirBaseUrl = StringValue ''http://old.example'',
            ResourceId = StringValue ''Patient/1'',
            ResponseSha256 = StringValue ''7b227265''\<rparr>"
  have h1: "?u = (fst ?u, Return \<lparr>Diagnostics = [], State = Some ?s\<rparr>)"
    by (simp add: prod_eq_iff patient_json_def medication_json_def blank_json_def
          observation_json_def example_world_def example_settings_def
          example_resource_def example_model_def example_state_def Update_def
          persistFhirResource_def readFileContent_def ValueString_def
          ValueStringPointer_def HasError_def lookup_def index_def
          assert_string_def fmt_s_def Sprintf_slash_def Header_Set_def
          hex_EncodeToString_def hextable_def AddError_def Let_def)
  have h2: "State \<lparr>Diagnostics = [], State = Some ?s\<rparr> = Some ?s"
    by simp
  from Update_identifier_from_document [OF h1 h2] h1
  show ?thesis by simp
qed

text \<open>
  C4 as stated fails: the server of the concrete world answers with the body
  \<open>observation_json\<close>, a record of type \<open>Observation\<close> with id \<open>1\<close>; the local document
  is of type \<open>Patient\<close>, and the identifier saved is \<open>Patient/1\<close>, not \<open>Observation/1\<close>.
\<close>

theorem Update_identifier_type_counterexample:
  "snd (Update example_world example_resource [] example_state [] example_model) =
     Return \<lparr>Diagnostics = [],
             State = Some \<lparr>FilePath = StringValue ''patient.json'', FileSha256 = StringNull,
                           FhirBaseUrl = StringValue ''http://old.example'',
                           ResourceId = StringValue ''Patient/1'',
                           ResponseSha256 = StringValue ''7b227265''\<rparr>\<rparr> \<and>
   map (Client_Do example_world)
     (fst (Update example_world example_resource [] example_state [] example_model)) =
     [Inr \<lparr>Status = ''200 OK'', ResponseBody = observation_json\<rparr>] \<and>
   StringValue ''Patient/1'' \<noteq> StringValue (Sprintf_slash ''Observation'' ''1'')"
  by (simp add: patient_json_def medication_json_def blank_json_def
        observation_json_def example_world_def example_settings_def
        example_resource_def example_model_def example_state_def Update_def
        persistFhirResource_def readFileContent_def ValueString_def
        ValueStringPointer_def HasError_def lookup_def index_def
        assert_string_def fmt_s_def Sprintf_slash_def Header_Set_def
        hex_EncodeToString_def hextable_def AddError_def Let_def Delete_def)

subsection \<open>C5: the base URL\<close>

text \<open>
  C5, as amended. In \<open>Create\<close>, \<open>Update\<close> and \<open>Delete\<close> the URL of every request sent is
  \<open>{base}/{path}\<close>, where the base is the per-call override \<open>fhir_base_url\<close> whenever it is
  present (not null), the empty string included, and the base URL of the provider settings
  when it is absent. The test of the code is \<open>!= nil\<close>, the same in the three operations.
\<close>

theorem base_url_resolution:
  assumes "providerSettings r = Some ps"
    and "rq \<in> set (fst (Create w r got data)) \<or>
         rq \<in> set (fst (Update w r got_state state got data)) \<or>
         rq \<in> set (fst (Delete w r got data))"
  shows "\<exists>suffix. URL rq =
           Sprintf_slash
             (case ValueStringPointer (FhirResourceModel.FhirBaseUrl data) of
                None \<Rightarrow> ProviderSettings.FhirBaseUrl ps | Some override \<Rightarrow> override)
             suffix"
  using assms(2)
proof (elim disjE)
  assume "rq \<in> set (fst (Create w r got data))"
  then show ?thesis
    using assms(1) by (auto dest!: Create_request elim!: persistFhirResource_request)
next
  assume "rq \<in> set (fst (Update w r got_state state got data))"
  then show ?thesis
    using assms(1) by (auto dest!: Update_request elim!: persistFhirResource_request)
next
  assume "rq \<in> set (fst (Delete w r got data))"
  then show ?thesis
    using assms(1) by (auto elim!: Delete_request)
qed

text \<open>
  The theorem for a \<open>Create\<close> whose plan overrides the base URL and for a \<open>Delete\<close> whose
  state does.
\<close>

theorem base_url_resolution_witness:
  "providerSettings example_resource = Some example_settings \<and>
   hd (fst (Create example_world example_resource [] example_model_new_base))
     \<in> set (fst (Create example_world example_resource [] example_model_new_base)) \<and>
   hd (fst (Delete example_world example_resource [] example_state))
     \<in> set (fst (Delete example_world example_resource [] example_state)) \<and>
   (\<exists>suffix. URL (hd (fst (Create example_world example_resource [] example_model_new_base))) =
      Sprintf_slash ''http://new.example'' suffix) \<and>
   (\<exists>suffix. URL (hd (fst (Delete example_world example_resource [] example_state))) =
      Sprintf_slash ''http://old.example'' suffix)"
proof -
  let ?rq = "hd (fst (Create example_world example_resource [] example_model_new_base))"
  let ?rq' = "hd (fst (Delete example_world example_resource [] example_state))"
  have h1: "providerSettings example_resource = Some example_settings"
    by (simp add: example_resource_def)
  have h2: "?rq \<in> set (fst (Create example_world example_resource [] example_model_new_base))"
    by (simp add: patient_json_def medication_json_def blank_json_def
        observation_json_def example_world_def example_settings_def
        example_resource_def example_model_new_base_def example_state_def
        Create_def persistFhirResource_def readFileContent_def ValueString_def
        ValueStringPointer_def HasError_def lookup_def index_def
        assert_string_def fmt_s_def Sprintf_slash_def Header_Set_def
        hex_EncodeToString_def hextable_def AddError_def Let_def Delete_def)
  have h3: "?rq' \<in> set (fst (Delete example_world example_resource [] example_state))"
    by (simp add: patient_json_def medication_json_def blank_json_def
        observation_json_def example_world_def example_settings_def
        example_resource_def example_model_new_base_def example_state_def
        Create_def persistFhirResource_def readFileContent_def ValueString_def
        ValueStringPointer_def HasError_def lookup_def index_def
        assert_string_def fmt_s_def Sprintf_slash_def Header_Set_def
        hex_EncodeToString_def hextable_def AddError_def Let_def Delete_def)
  have c1: "\<exists>suffix. URL ?rq = Sprintf_slash ''http://new.example'' suffix"
    using base_url_resolution [OF h1 disjI1 [OF h2]]
    by (simp add: example_model_new_base_def ValueStringPointer_def)
  have c2: "\<exists>suffix. URL ?rq' = Sprintf_slash ''http://old.example'' suffix"
    using base_url_resolution [OF h1 disjI2 [OF disjI2 [OF h3]]]
    by (simp add: example_state_def ValueStringPointer_def)
  from h1 h2 h3 c1 c2 show ?thesis by (intro conjI)
qed

text \<open>
  C5 as stated fails: an override that is present and empty is not replaced by the default.
  With \<open>fhir_base_url = ""\<close> and the default \<open>http://fhir.example\<close>, \<open>Delete\<close> sends its
  request to \<open>/Patient/7\<close>.
\<close>

theorem empty_override_counterexample:
  "map Method (fst (Delete example_world example_resource [] example_state_empty_override)) =
     [''DELETE''] \<and>
   map URL (fst (Delete example_world example_resource [] example_state_empty_override)) =
     [''/Patient/7''] \<and>
   ProviderSettings.FhirBaseUrl example_settings = ''http://fhir.example'' \<and>
   FhirResourceModel.FhirBaseUrl example_state_empty_override = StringValue []"
  by (simp add: patient_json_def medication_json_def blank_json_def
        observation_json_def example_world_def example_settings_def
        example_resource_def example_state_empty_override_def Create_def
        persistFhirResource_def readFileContent_def ValueString_def
        ValueStringPointer_def HasError_def lookup_def index_def
        assert_string_def fmt_s_def Sprintf_slash_def Header_Set_def
        hex_EncodeToString_def hextable_def AddError_def Let_def Update_def
        Read_def ReadFhirResource_def Delete_def)

subsection \<open>C6: a document without resourceType\<close>

text \<open>
  C6, as amended. The code tests only whether the key \<open>resourceType\<close> is present. For every
  document that decodes without error and has no key \<open>resourceType\<close> (the nil map of the
  document \<open>null\<close> included), \<open>Create\<close> and \<open>Update\<close> send no request and return the error
  diagnostic "property resourceType not found in json file", with no state saved.
\<close>

theorem missing_resourceType_sends_nothing:
  assumes "read_file w (ValueString (FilePath data)) = FileBytes content"
    and "json_Unmarshal w content = Inr doc"
    and "lookup doc ''resourceType'' = None"
    and "\<not> HasError (Append [] got)"
    and "\<not> HasError (Append (Append [] got_state) got)"
  shows "Create w r got data =
           ([], Return \<lparr>Diagnostics = AddError (Append [] got)
                          (''property resourceType not found in json file ''
                             @ ValueString (FilePath data)) [],
                        State = None\<rparr>) \<and>
         Update w r got_state state got data =
           ([], Return \<lparr>Diagnostics = AddError (Append (Append [] got_state) got)
                          (''property resourceType not found in json file ''
                             @ ValueString (FilePath data)) [],
                        State = None\<rparr>) \<and>
         HasError (AddError (Append [] got)
                     (''property resourceType not found in json file ''
                        @ ValueString (FilePath data)) []) \<and>
         HasError (AddError (Append (Append [] got_state) got)
                     (''property resourceType not found in json file ''
                        @ ValueString (FilePath data)) [])"
proof -
  have p: "persistFhirResource w (with_settings r data) rid d =
     ([], Return (AddError d
            (''property resourceType not found in json file '' @ ValueString (FilePath data))
            [], None))" for rid d
    using persistFhirResource_untyped [of w "with_settings r data" content doc rid d] assms(1-3)
    by simp
  have e: "HasError (AddError d s t)" for d s t
    by (rule HasError_AddError)
  show ?thesis
    using assms(4,5) by (simp add: Create_def Update_def p e)
qed

text \<open>The theorem for the document \<open>{}\<close> of the concrete world.\<close>

theorem missing_resourceType_sends_nothing_witness:
  "read_file example_world (ValueString (FilePath example_model_untyped)) = FileBytes ''{}'' \<and>
   json_Unmarshal example_world ''{}'' = Inr (Some Map.empty) \<and>
   lookup (Some Map.empty) ''resourceType'' = None \<and>
   \<not> HasError (Append [] []) \<and>
   \<not> HasError (Append (Append [] []) []) \<and>
   Create example_world example_resource [] example_model_untyped =
     ([], Return \<lparr>Diagnostics = AddError (Append [] [])
                    (''property resourceType not found in json file ''
                       @ ValueString (FilePath example_model_untyped)) [],
                  State = None\<rparr>) \<and>
   Update example_world example_resource [] example_state [] example_model_untyped =
     ([], Return \<lparr>Diagnostics = AddError (Append (Append [] []) [])
                    (''property resourceType not found in json file ''
                       @ ValueString (FilePath example_model_untyped)) [],
                  State = None\<rparr>)"
proof -
  have h1: "read_file example_world (ValueString (FilePath example_model_untyped)) =
      FileBytes ''{}''"
    by (simp add: example_world_def example_model_untyped_def ValueString_def)
  have h2: "json_Unmarshal example_world ''{}'' = Inr (Some Map.empty)"
    by (simp add: patient_json_def medication_json_def blank_json_def
        observation_json_def example_world_def example_settings_def
        example_resource_def example_model_untyped_def example_state_def)
  have h3: "lookup (Some Map.empty) ''resourceType'' = None" by (simp add: lookup_def)
  have h4: "\<not> HasError (Append [] [])" by (simp add: HasError_def)
  have h5: "\<not> HasError (Append (Append [] []) [])" by (simp add: HasError_def)
  from missing_resourceType_sends_nothing [OF h1 h2 h3 h4 h5, of example_resource example_state]
    h1 h2 h3 h4 h5
  show ?thesis by (intro conjI) simp_all
qed

text \<open>
  C6 as stated fails: a document whose \<open>resourceType\<close> is the empty string is not rejected.
  \<open>Create\<close> sends a \<open>POST\<close> to \<open>http://fhir.example/\<close> and saves the identifier \<open>/1\<close>.
\<close>

theorem blank_resourceType_counterexample:
  "map Method (fst (Create example_world example_resource [] example_model_blank)) = [''POST''] \<and>
   map URL (fst (Create example_world example_resource [] example_model_blank)) =
     [''http://fhir.example/''] \<and>
   snd (Create example_world example_resource [] example_model_blank) =
     Return \<lparr>Diagnostics = [],
             State = Some \<lparr>FilePath = StringValue ''blank.json'', FileSha256 = StringNull,
                           FhirBaseUrl = StringNull, ResourceId = StringValue ''/1'',
                           ResponseSha256 = StringValue ''7b227265''\<rparr>\<rparr>"
  by (simp add: patient_json_def medication_json_def blank_json_def
        observation_json_def example_world_def example_settings_def
        example_resource_def example_model_blank_def Create_def
        persistFhirResource_def readFileContent_def ValueString_def
        ValueStringPointer_def HasError_def lookup_def index_def
        assert_string_def fmt_s_def Sprintf_slash_def Header_Set_def
        hex_EncodeToString_def hextable_def AddError_def Let_def Update_def
        Delete_def)

subsection \<open>C7: the fingerprint\<close>

text \<open>
  C7. Whenever \<open>Create\<close>, \<open>Read\<close> or \<open>Update\<close> saves a state, exactly one request was
  sent, the client answered it, and the saved \<open>response_sha256\<close> is the hex encoding of the
  SHA-256 digest of the body of that answer, byte for byte as it was read (not of the decoded
  or re-encoded JSON). Being a function of those bytes, equal bodies give equal fingerprints.
\<close>

theorem fingerprint_of_raw_response:
  "(Create w r got data = (sent, Return resp) \<and> State resp = Some st \<longrightarrow>
      (\<exists>rq rsp. sent = [rq] \<and> Client_Do w rq = Inr rsp \<and>
         ResponseSha256 st =
           StringValue (hex_EncodeToString (sha256_Sum256 w (ResponseBody rsp))))) \<and>
   (Read w r got data = (sent, Return resp) \<and> State resp = Some st \<longrightarrow>
      (\<exists>rq rsp. sent = [rq] \<and> Client_Do w rq = Inr rsp \<and>
         ResponseSha256 st =
           StringValue (hex_EncodeToString (sha256_Sum256 w (ResponseBody rsp))))) \<and>
   (Update w r got_state state got data = (sent, Return resp) \<and> State resp = Some st \<longrightarrow>
      (\<exists>rq rsp. sent = [rq] \<and> Client_Do w rq = Inr rsp \<and>
         ResponseSha256 st =
           StringValue (hex_EncodeToString (sha256_Sum256 w (ResponseBody rsp)))))"
proof (intro conjI impI)
  assume a: "Create w r got data = (sent, Return resp) \<and> State resp = Some st"
  then obtain body rj rts ident where
    p: "persistFhirResource w (with_settings r data) None (Append [] got) =
          (sent, Return (Diagnostics resp, Some (body, Some rj, rts)))" and
    st: "st = data\<lparr>ResourceId := StringValue (Sprintf_slash rts ident),
               ResponseSha256 := StringValue (hex_EncodeToString (sha256_Sum256 w body))\<rparr>"
    by (blast elim: Create_saved)
  from p obtain rq rsp where "sent = [rq]" "Client_Do w rq = Inr rsp" "body = ResponseBody rsp"
    by (blast elim: persistFhirResource_success)
  then show "\<exists>rq rsp. sent = [rq] \<and> Client_Do w rq = Inr rsp \<and>
         ResponseSha256 st =
           StringValue (hex_EncodeToString (sha256_Sum256 w (ResponseBody rsp)))"
    using st by simp
next
  assume a: "Read w r got data = (sent, Return resp) \<and> State resp = Some st"
  then obtain body rt ident where
    p: "ReadFhirResource w (providerSettings r) (ValueString (ResourceId data)) (Append [] got) =
          (sent, Return (Diagnostics resp, Some body))" and
    st: "st = data\<lparr>ResourceId := StringValue (Sprintf_slash rt ident),
               ResponseSha256 := StringValue (hex_EncodeToString (sha256_Sum256 w body))\<rparr>"
    by (blast elim: Read_saved)
  from p obtain rq rsp where "sent = [rq]" "Client_Do w rq = Inr rsp" "body = ResponseBody rsp"
    by (blast elim: ReadFhirResource_success)
  then show "\<exists>rq rsp. sent = [rq] \<and> Client_Do w rq = Inr rsp \<and>
         ResponseSha256 st =
           StringValue (hex_EncodeToString (sha256_Sum256 w (ResponseBody rsp)))"
    using st by simp
next
  assume a: "Update w r got_state state got data = (sent, Return resp) \<and> State resp = Some st"
  then obtain body rj rts ident where
    p: "persistFhirResource w (with_settings r data) (ValueStringPointer (ResourceId state))
         (Append (Append [] got_state) got) =
          (sent, Return (Diagnostics resp, Some (body, Some rj, rts)))" and
    st: "st = state\<lparr>ResourceId := StringValue (Sprintf_slash rts ident),
               ResponseSha256 := StringValue (hex_EncodeToString (sha256_Sum256 w body)),
               FilePath := FilePath data, FileSha256 := FileSha256 data\<rparr>"
    by (blast elim: Update_saved)
  from p obtain rq rsp where "sent = [rq]" "Client_Do w rq = Inr rsp" "body = ResponseBody rsp"
    by (blast elim: persistFhirResource_success)
  then show "\<exists>rq rsp. sent = [rq] \<and> Client_Do w rq = Inr rsp \<and>
         ResponseSha256 st =
           StringValue (hex_EncodeToString (sha256_Sum256 w (ResponseBody rsp)))"
    using st by simp
qed

text \<open>The three operations in the concrete world; the digest there is the first four bytes.\<close>

theorem fingerprint_of_raw_response_witness:
  "(Create example_world example_resource [] example_model =
      (fst (Create example_world example_resource [] example_model),
       Return \<lparr>Diagnostics = [],
               State = Some (example_model\<lparr>ResourceId := StringValue ''Patient/1'',
                                            ResponseSha256 := StringValue ''7b227265''\<rparr>)\<rparr>) \<and>
    (\<exists>rq rsp. fst (Create example_world example_resource [] example_model) = [rq] \<and>
       Client_Do example_world rq = Inr rsp \<and>
       StringValue ''7b227265'' =
         StringValue (hex_EncodeToString (sha256_Sum256 example_world (ResponseBody rsp))))) \<and>
   (Read example_world example_resource [] example_state =
      (fst (Read example_world example_resource [] example_state),
       Return \<lparr>Diagnostics = [],
               State = Some (example_state\<lparr>ResourceId := StringValue ''Observation/1'',
                                            ResponseSha256 := StringValue ''7b227265''\<rparr>)\<rparr>) \<and>
    (\<exists>rq rsp. fst (Read example_world example_resource [] example_state) = [rq] \<and>
       Client_Do example_world rq = Inr rsp \<and>
       StringValue ''7b227265'' =
         StringValue (hex_EncodeToString (sha256_Sum256 example_world (ResponseBody rsp))))) \<and>
   (Update example_world example_resource [] example_state [] example_model =
      (fst (Update example_world example_resource [] example_state [] example_model),
       Return \<lparr>Diagnostics = [],
               State = Some (example_state\<lparr>ResourceId := StringValue ''Patient/1'',
                                            ResponseSha256 := StringValue ''7b227265'',
                                            FilePath := StringValue ''patient.json'',
                                            FileSha256 := StringNull\<rparr>)\<rparr>) \<and>
    (\<exists>rq rsp. fst (Update example_world example_resource [] example_state [] example_model) = [rq] \<and>
       Client_Do example_world rq = Inr rsp \<and>
       StringValue ''7b227265'' =
         StringValue (hex_EncodeToString (sha256_Sum256 example_world (ResponseBody rsp)))))"
proof -
  let ?c = "Create example_world example_resource [] example_model"
  let ?cs = "example_model\<lparr>ResourceId := StringValue ''Patient/1'',
                           ResponseSha256 := StringValue ''7b227265''\<rparr>"
  let ?r = "Read example_world example_resource [] example_state"
  let ?rs = "example_state\<lparr>ResourceId := StringValue ''Observation/1'',
                           ResponseSha256 := StringValue ''7b227265''\<rparr>"
  let ?u = "Update example_world example_resource [] example_state [] example_model"
  let ?us = "example_state\<lparr>ResourceId := StringValue ''Patient/1'',
                           ResponseSha256 := StringValue ''7b227265'',
                           FilePath := StringValue ''patient.json'',
                           FileSha256 := StringNull\<rparr>"
  have c: "?c = (fst ?c, Return \<lparr>Diagnostics = [], State = Some ?cs\<rparr>)"
    by (simp add: prod_eq_iff patient_json_def medication_json_def blank_json_def
          observation_json_def example_world_def example_settings_def
          example_resource_def example_model_def example_state_def Create_def
          persistFhirResource_def readFileContent_def ValueString_def
          ValueStringPointer_def HasError_def lookup_def index_def
          assert_string_def fmt_s_def Sprintf_slash_def Header_Set_def
          hex_EncodeToString_def hextable_def AddError_def Let_def Update_def
          Read_def ReadFhirResource_def)
  have r: "?r = (fst ?r, Return \<lparr>Diagnostics = [], State = Some ?rs\<rparr>)"
    by (simp add: prod_eq_iff patient_json_def medication_json_def blank_json_def
          observation_json_def example_world_def example_settings_def
          example_resource_def example_model_def example_state_def Create_def
          persistFhirResource_def readFileContent_def ValueString_def
          ValueStringPointer_def HasError_def lookup_def index_def
          assert_string_def fmt_s_def Sprintf_slash_def Header_Set_def
          hex_EncodeToString_def hextable_def AddError_def Let_def Update_def
          Read_def ReadFhirResource_def)
  have u: "?u = (fst ?u, Return \<lparr>Diagnostics = [], State = Some ?us\<rparr>)"
    by (simp add: prod_eq_iff patient_json_def medication_json_def blank_json_def
          observation_json_def example_world_def example_settings_def
          example_resource_def example_model_def example_state_def Create_def
          persistFhirResource_def readFileContent_def ValueString_def
          ValueStringPointer_def HasError_def lookup_def index_def
          assert_string_def fmt_s_def Sprintf_slash_def Header_Set_def
          hex_EncodeToString_def hextable_def AddError_def Let_def Update_def
          Read_def ReadFhirResource_def)
  have sc: "ResponseSha256 ?cs = StringValue ''7b227265''"
    and sr: "ResponseSha256 ?rs = StringValue ''7b227265''"
    and su: "ResponseSha256 ?us = StringValue ''7b227265''"
    by simp_all
  have hc: "?c = (fst ?c, Return \<lparr>Diagnostics = [], State = Some ?cs\<rparr>) \<and>
            State \<lparr>Diagnostics = [], State = Some ?cs\<rparr> = Some ?cs"
    by (rule conjI [OF c]) simp
  have hr: "?r = (fst ?r, Return \<lparr>Diagnostics = [], State = Some ?rs\<rparr>) \<and>
            State \<lparr>Diagnostics = [], State = Some ?rs\<rparr> = Some ?rs"
    by (rule conjI [OF r]) simp
  have hu: "?u = (fst ?u, Return \<lparr>Diagnostics = [], State = Some ?us\<rparr>) \<and>
            State \<lparr>Diagnostics = [], State = Some ?us\<rparr> = Some ?us"
    by (rule conjI [OF u]) simp
  have "\<exists>rq rsp. fst ?c = [rq] \<and> Client_Do example_world rq = Inr rsp \<and>
          ResponseSha256 ?cs =
            StringValue (hex_EncodeToString (sha256_Sum256 example_world (ResponseBody rsp)))"
    by (rule fingerprint_of_raw_response [THEN conjunct1, THEN mp, OF hc])
  moreover
  have "\<exists>rq rsp. fst ?r = [rq] \<and> Client_Do example_world rq = Inr rsp \<and>
          ResponseSha256 ?rs =
            StringValue (hex_EncodeToString (sha256_Sum256 example_world (ResponseBody rsp)))"
    by (rule fingerprint_of_raw_response [THEN conjunct2, THEN conjunct1, THEN mp, OF hr])
  moreover
  have "\<exists>rq rsp. fst ?u = [rq] \<and> Client_Do example_world rq = Inr rsp \<and>
          ResponseSha256 ?us =
            StringValue (hex_EncodeToString (sha256_Sum256 example_world (ResponseBody rsp)))"
    by (rule fingerprint_of_raw_response [THEN conjunct2, THEN conjunct2, THEN mp, OF hu])
  ultimately show ?thesis
    unfolding sc sr su using c r u by blast
qed

subsection \<open>C8: the headers\<close>

text \<open>
  C8. In every request that \<open>Create\<close>, \<open>Read\<close>, \<open>Update\<close> or \<open>Delete\<close> sends, the header
  \<open>Content-Type\<close> is \<open>application/json\<close> whatever the default headers say for that key; every
  default header has been set (its canonical key is present); and a default header keeps
  its value unless its canonical key is that of \<open>Content-Type\<close> or another default header
  with the same canonical key carries a different value.
\<close>

theorem request_headers:
  assumes "providerSettings r = Some ps"
    and "rq \<in> set (fst (Create w r got data)) \<or>
         rq \<in> set (fst (Read w r got data)) \<or>
         rq \<in> set (fst (Update w r got_state state got data)) \<or>
         rq \<in> set (fst (Delete w r got data))"
  shows "Header rq (CanonicalMIMEHeaderKey w ''Content-Type'') = Some [''application/json''] \<and>
         (\<forall>(k, v) \<in> set (DefaultHeaders ps). CanonicalMIMEHeaderKey w k \<in> dom (Header rq)) \<and>
         (\<forall>(k, v) \<in> set (DefaultHeaders ps).
            CanonicalMIMEHeaderKey w k \<noteq> CanonicalMIMEHeaderKey w ''Content-Type'' \<and>
            (\<forall>(k', v') \<in> set (DefaultHeaders ps).
               CanonicalMIMEHeaderKey w k' = CanonicalMIMEHeaderKey w k \<longrightarrow> v' = v) \<longrightarrow>
            Header rq (CanonicalMIMEHeaderKey w k) = Some [v])"
proof -
  have "Header rq = Header_Set w
          (fold (\<lambda>(key, val) h. Header_Set w h key val) (DefaultHeaders ps) Map.empty)
          ''Content-Type'' ''application/json''"
    using assms(2)
  proof (elim disjE)
    assume "rq \<in> set (fst (Create w r got data))"
    then show ?thesis
      using assms(1) by (auto dest!: Create_request elim!: persistFhirResource_request)
  next
    assume "rq \<in> set (fst (Read w r got data))"
    then show ?thesis
      using assms(1) by (auto dest!: Read_request elim!: ReadFhirResource_request)
  next
    assume "rq \<in> set (fst (Update w r got_state state got data))"
    then show ?thesis
      using assms(1) by (auto dest!: Update_request elim!: persistFhirResource_request)
  next
    assume "rq \<in> set (fst (Delete w r got data))"
    then show ?thesis
      using assms(1) by (auto elim!: Delete_request)
  qed
  then show ?thesis
    using headers_after_loop [where w = w and hs = "DefaultHeaders ps"] by auto
qed

text \<open>
  The theorem for the requests of \<open>Create\<close> and \<open>Read\<close> in the concrete world, whose default
  headers are \<open>Accept\<close> and a \<open>Content-Type\<close> of \<open>text/plain\<close>.
\<close>

theorem request_headers_witness:
  "providerSettings example_resource = Some example_settings \<and>
   hd (fst (Create example_world example_resource [] example_model))
     \<in> set (fst (Create example_world example_resource [] example_model)) \<and>
   hd (fst (Read example_world example_resource [] example_state))
     \<in> set (fst (Read example_world example_resource [] example_state)) \<and>
   Header (hd (fst (Create example_world example_resource [] example_model)))
     (CanonicalMIMEHeaderKey example_world ''Content-Type'') = Some [''application/json''] \<and>
   Header (hd (fst (Create example_world example_resource [] example_model)))
     (CanonicalMIMEHeaderKey example_world ''Accept'') = Some [''application/fhir+json''] \<and>
   Header (hd (fst (Read example_world example_resource [] example_state)))
     (CanonicalMIMEHeaderKey example_world ''Content-Type'') = Some [''application/json'']"
proof -
  let ?rq = "hd (fst (Create example_world example_resource [] example_model))"
  let ?rq' = "hd (fst (Read example_world example_resource [] example_state))"
  have h1: "providerSettings example_resource = Some example_settings"
    by (simp add: example_resource_def)
  have h2: "?rq \<in> set (fst (Create example_world example_resource [] example_model))"
    by (simp add: patient_json_def medication_json_def blank_json_def
        observation_json_def example_world_def example_settings_def
        example_resource_def example_model_def example_state_def Create_def
        persistFhirResource_def readFileContent_def ValueString_def
        ValueStringPointer_def HasError_def lookup_def index_def
        assert_string_def fmt_s_def Sprintf_slash_def Header_Set_def
        hex_EncodeToString_def hextable_def AddError_def Let_def Update_def
        Read_def ReadFhirResource_def)
  have h3: "?rq' \<in> set (fst (Read example_world example_resource [] example_state))"
    by (simp add: patient_json_def medication_json_def blank_json_def
        observation_json_def example_world_def example_settings_def
        example_resource_def example_model_def example_state_def Create_def
        persistFhirResource_def readFileContent_def ValueString_def
        ValueStringPointer_def HasError_def lookup_def index_def
        assert_string_def fmt_s_def Sprintf_slash_def Header_Set_def
        hex_EncodeToString_def hextable_def AddError_def Let_def Update_def
        Read_def ReadFhirResource_def)
  note create = request_headers [OF h1 disjI1 [OF h2]]
  note read = request_headers [OF h1 disjI2 [OF disjI1 [OF h3]]]
  have c1: "Header ?rq (CanonicalMIMEHeaderKey example_world ''Content-Type'') =
      Some [''application/json'']"
    by (rule create [THEN conjunct1])
  have c2: "Header ?rq (CanonicalMIMEHeaderKey example_world ''Accept'') =
      Some [''application/fhir+json'']"
    using create [THEN conjunct2, THEN conjunct2]
    by (simp add: example_settings_def example_world_def)
  have c3: "Header ?rq' (CanonicalMIMEHeaderKey example_world ''Content-Type'') =
      Some [''application/json'']"
    by (rule read [THEN conjunct1])
  from h1 h2 h3 c1 c2 c3 show ?thesis by (intro conjI)
qed

subsection \<open>C9: the first byte of the status\<close>

text \<open>
  C9. Each operation classifies the answer by \<open>Status[0]\<close>. Once the one request has been
  sent and answered, the operation ends in the panic of an index out of range exactly when
  the status string is empty; with a non-empty status whose first byte is not \<open>2\<close> it returns
  an error diagnostic and saves no state; and \<open>Delete\<close>, with a first byte \<open>2\<close>, returns
  without a diagnostic of its own.
\<close>

theorem status_first_byte:
  "(fst (Create w r got data) = [rq] \<and> Client_Do w rq = Inr rsp \<longrightarrow>
      ((snd (Create w r got data) = Panic IndexOutOfRange) = (Status rsp = [])) \<and>
      (Status rsp \<noteq> [] \<and> hd (Status rsp) \<noteq> CHR ''2'' \<longrightarrow>
         (\<exists>ds. snd (Create w r got data) = Return \<lparr>Diagnostics = ds, State = None\<rparr> \<and>
               HasError ds))) \<and>
   (fst (Read w r got data) = [rq] \<and> Client_Do w rq = Inr rsp \<longrightarrow>
      ((snd (Read w r got data) = Panic IndexOutOfRange) = (Status rsp = [])) \<and>
      (Status rsp \<noteq> [] \<and> hd (Status rsp) \<noteq> CHR ''2'' \<longrightarrow>
         (\<exists>ds. snd (Read w r got data) = Return \<lparr>Diagnostics = ds, State = None\<rparr> \<and>
               HasError ds))) \<and>
   (fst (Update w r got_state state got data) = [rq] \<and> Client_Do w rq = Inr rsp \<longrightarrow>
      ((snd (Update w r got_state state got data) = Panic IndexOutOfRange) = (Status rsp = [])) \<and>
      (Status rsp \<noteq> [] \<and> hd (Status rsp) \<noteq> CHR ''2'' \<longrightarrow>
         (\<exists>ds. snd (Update w r got_state state got data) =
                 Return \<lparr>Diagnostics = ds, State = None\<rparr> \<and>
               HasError ds))) \<and>
   (fst (Delete w r got data) = [rq] \<and> Client_Do w rq = Inr rsp \<longrightarrow>
      ((snd (Delete w r got data) = Panic IndexOutOfRange) = (Status rsp = [])) \<and>
      (Status rsp \<noteq> [] \<and> hd (Status rsp) \<noteq> CHR ''2'' \<longrightarrow>
         (\<exists>ds. snd (Delete w r got data) = Return \<lparr>Diagnostics = ds, State = None\<rparr> \<and>
               HasError ds)) \<and>
      (Status rsp \<noteq> [] \<and> hd (Status rsp) = CHR ''2'' \<longrightarrow>
         snd (Delete w r got data) = Return \<lparr>Diagnostics = Append [] got, State = None\<rparr>))"
proof (intro conjI impI; elim conjE)
  assume a: "fst (Create w r got data) = [rq]" "Client_Do w rq = Inr rsp"
  then have clean: "\<not> HasError (Append [] got)"
    and p: "fst (persistFhirResource w (with_settings r data) None (Append [] got)) = [rq]"
    by (auto simp: fst_Create split: if_splits)
  show "(snd (Create w r got data) = Panic IndexOutOfRange) = (Status rsp = [])"
    using persistFhirResource_status(1) [OF p a(2)] snd_Create(1) [OF clean] by simp
  show "\<exists>ds. snd (Create w r got data) = Return \<lparr>Diagnostics = ds, State = None\<rparr> \<and> HasError ds"
    if "Status rsp \<noteq> []" "hd (Status rsp) \<noteq> CHR ''2''"
    using persistFhirResource_status(2) [OF p a(2) that] snd_Create(2) [OF clean] by blast
next
  assume a: "fst (Read w r got data) = [rq]" "Client_Do w rq = Inr rsp"
  then have clean: "\<not> HasError (Append [] got)"
    and p: "fst (ReadFhirResource w (providerSettings r) (ValueString (ResourceId data))
                  (Append [] got)) = [rq]"
    by (auto simp: fst_Read split: if_splits)
  show "(snd (Read w r got data) = Panic IndexOutOfRange) = (Status rsp = [])"
    using ReadFhirResource_status(1) [OF p a(2)] snd_Read(1) [OF clean] by simp
  show "\<exists>ds. snd (Read w r got data) = Return \<lparr>Diagnostics = ds, State = None\<rparr> \<and> HasError ds"
    if "Status rsp \<noteq> []" "hd (Status rsp) \<noteq> CHR ''2''"
    using ReadFhirResource_status(2) [OF p a(2) that] snd_Read(2) [OF clean] by blast
next
  assume a: "fst (Update w r got_state state got data) = [rq]" "Client_Do w rq = Inr rsp"
  then have clean: "\<not> HasError (Append (Append [] got_state) got)"
    and p: "fst (persistFhirResource w (with_settings r data)
                  (ValueStringPointer (ResourceId state))
                  (Append (Append [] got_state) got)) = [rq]"
    by (auto simp: fst_Update split: if_splits)
  show "(snd (Update w r got_state state got data) = Panic IndexOutOfRange) = (Status rsp = [])"
    using persistFhirResource_status(1) [OF p a(2)] snd_Update(1) [OF clean] by simp
  show "\<exists>ds. snd (Update w r got_state state got data) =
               Return \<lparr>Diagnostics = ds, State = None\<rparr> \<and> HasError ds"
    if "Status rsp \<noteq> []" "hd (Status rsp) \<noteq> CHR ''2''"
    using persistFhirResource_status(2) [OF p a(2) that] snd_Update(2) [OF clean] by blast
next
  assume a: "fst (Delete w r got data) = [rq]" "Client_Do w rq = Inr rsp"
  show "(snd (Delete w r got data) = Panic IndexOutOfRange) = (Status rsp = [])"
    by (rule Delete_status(1) [OF a])
  show "\<exists>ds. snd (Delete w r got data) = Return \<lparr>Diagnostics = ds, State = None\<rparr> \<and> HasError ds"
    if "Status rsp \<noteq> []" "hd (Status rsp) \<noteq> CHR ''2''"
    by (rule Delete_status(2) [OF a that])
  show "snd (Delete w r got data) = Return \<lparr>Diagnostics = Append [] got, State = None\<rparr>"
    if "Status rsp \<noteq> []" "hd (Status rsp) = CHR ''2''"
    by (rule Delete_status(3) [OF a that])
qed

text \<open>
  The theorem for a \<open>Create\<close> and an \<open>Update\<close> answered with an empty status, a \<open>Read\<close>
  answered with \<open>404 Not Found\<close> and a \<open>Delete\<close> answered with \<open>200 OK\<close>.
\<close>

theorem status_first_byte_witness:
  "fst (Create example_world_no_status example_resource [] example_model) =
     [hd (fst (Create example_world_no_status example_resource [] example_model))] \<and>
   Client_Do example_world_no_status
     (hd (fst (Create example_world_no_status example_resource [] example_model))) =
     Inr \<lparr>Status = [], ResponseBody = ''{}''\<rparr> \<and>
   snd (Create example_world_no_status example_resource [] example_model) =
     Panic IndexOutOfRange \<and>
   fst (Update example_world_no_status example_resource [] example_state [] example_model) =
     [hd (fst (Update example_world_no_status example_resource [] example_state []
                 example_model))] \<and>
   Client_Do example_world_no_status
     (hd (fst (Update example_world_no_status example_resource [] example_state []
                 example_model))) =
     Inr \<lparr>Status = [], ResponseBody = ''{}''\<rparr> \<and>
   snd (Update example_world_no_status example_resource [] example_state [] example_model) =
     Panic IndexOutOfRange \<and>
   fst (Read example_world_not_found example_resource [] example_state) =
     [hd (fst (Read example_world_not_found example_resource [] example_state))] \<and>
   Client_Do example_world_not_found
     (hd (fst (Read example_world_not_found example_resource [] example_state))) =
     Inr \<lparr>Status = ''404 Not Found'', ResponseBody = ''not found''\<rparr> \<and>
   ''404 Not Found'' \<noteq> [] \<and> hd ''404 Not Found'' \<noteq> CHR ''2'' \<and>
   (\<exists>ds. snd (Read example_world_not_found example_resource [] example_state) =
           Return \<lparr>Diagnostics = ds, State = None\<rparr> \<and> HasError ds) \<and>
   fst (Delete example_world example_resource [] example_state) =
     [hd (fst (Delete example_world example_resource [] example_state))] \<and>
   Client_Do example_world
     (hd (fst (Delete example_world example_resource [] example_state))) =
     Inr \<lparr>Status = ''200 OK'', ResponseBody = observation_json\<rparr> \<and>
   ''200 OK'' \<noteq> [] \<and> hd ''200 OK'' = CHR ''2'' \<and>
   snd (Delete example_world example_resource [] example_state) =
     Return \<lparr>Diagnostics = Append [] [], State = None\<rparr>"
proof -
  let ?c = "Create example_world_no_status example_resource [] example_model"
  let ?u = "Update example_world_no_status example_resource [] example_state [] example_model"
  let ?r = "Read example_world_not_found example_resource [] example_state"
  let ?d = "Delete example_world example_resource [] example_state"
  have c1: "fst ?c = [hd (fst ?c)]"
    by (simp add: patient_json_def medication_json_def blank_json_def
        observation_json_def example_world_def example_world_no_status_def
        example_world_not_found_def example_settings_def example_resource_def
        example_model_def example_state_def Create_def persistFhirResource_def
        readFileContent_def ValueString_def ValueStringPointer_def
        HasError_def lookup_def index_def assert_string_def fmt_s_def
        Sprintf_slash_def Header_Set_def hex_EncodeToString_def hextable_def
        AddError_def Let_def Update_def Read_def ReadFhirResource_def
        Delete_def)
  have c2: "Client_Do example_world_no_status (hd (fst ?c)) =
      Inr \<lparr>Status = [], ResponseBody = ''{}''\<rparr>"
    by (simp add: example_world_no_status_def)
  have u1: "fst ?u = [hd (fst ?u)]"
    by (simp add: patient_json_def medication_json_def blank_json_def
        observation_json_def example_world_def example_world_no_status_def
        example_world_not_found_def example_settings_def example_resource_def
        example_model_def example_state_def Update_def persistFhirResource_def
        readFileContent_def ValueString_def ValueStringPointer_def
        HasError_def lookup_def index_def assert_string_def fmt_s_def
        Sprintf_slash_def Header_Set_def hex_EncodeToString_def hextable_def
        AddError_def Let_def Read_def ReadFhirResource_def Delete_def)
  have u2: "Client_Do example_world_no_status (hd (fst ?u)) =
      Inr \<lparr>Status = [], ResponseBody = ''{}''\<rparr>"
    by (simp add: example_world_no_status_def)
  have r1: "fst ?r = [hd (fst ?r)]"
    by (simp add: patient_json_def medication_json_def blank_json_def
        observation_json_def example_world_def example_world_no_status_def
        example_world_not_found_def example_settings_def example_resource_def
        example_model_def example_state_def Create_def persistFhirResource_def
        readFileContent_def ValueString_def ValueStringPointer_def
        HasError_def lookup_def index_def assert_string_def fmt_s_def
        Sprintf_slash_def Header_Set_def hex_EncodeToString_def hextable_def
        AddError_def Let_def Update_def Read_def ReadFhirResource_def
        Delete_def)
  have r2: "Client_Do example_world_not_found (hd (fst ?r)) =
      Inr \<lparr>Status = ''404 Not Found'', ResponseBody = ''not found''\<rparr>"
    by (simp add: example_world_not_found_def)
  have r3: "''404 Not Found'' \<noteq> []" and r4: "hd ''404 Not Found'' \<noteq> CHR ''2''"
    by simp_all
  have d1: "fst ?d = [hd (fst ?d)]"
    by (simp add: patient_json_def medication_json_def blank_json_def
        observation_json_def example_world_def example_world_no_status_def
        example_world_not_found_def example_settings_def example_resource_def
        example_model_def example_state_def Create_def persistFhirResource_def
        readFileContent_def ValueString_def ValueStringPointer_def
        HasError_def lookup_def index_def assert_string_def fmt_s_def
        Sprintf_slash_def Header_Set_def hex_EncodeToString_def hextable_def
        AddError_def Let_def Update_def Read_def ReadFhirResource_def
        Delete_def)
  have d2: "Client_Do example_world (hd (fst ?d)) =
      Inr \<lparr>Status = ''200 OK'', ResponseBody = observation_json\<rparr>"
    by (simp add: example_world_def)
  have d3: "''200 OK'' \<noteq> []" and d4: "hd ''200 OK'' = CHR ''2''"
    by simp_all
  have c: "snd ?c = Panic IndexOutOfRange"
    using status_first_byte [THEN conjunct1, rule_format, OF conjI [OF c1 c2]] by simp
  have u: "snd ?u = Panic IndexOutOfRange"
    using status_first_byte
      [THEN conjunct2, THEN conjunct2, THEN conjunct1, rule_format, OF conjI [OF u1 u2]]
    by simp
  have r: "\<exists>ds. snd ?r = Return \<lparr>Diagnostics = ds, State = None\<rparr> \<and> HasError ds"
    using status_first_byte [THEN conjunct2, THEN conjunct1, rule_format, OF conjI [OF r1 r2]]
      r3 r4 by simp
  have d: "snd ?d = Return \<lparr>Diagnostics = Append [] [], State = None\<rparr>"
    using status_first_byte
      [THEN conjunct2, THEN conjunct2, THEN conjunct2, rule_format, OF conjI [OF d1 d2]]
      d3 d4 by simp
  from c1 c2 c u1 u2 u r1 r2 r3 r4 r d1 d2 d3 d4 d show ?thesis by (intro conjI)
qed

subsection \<open>C10: the state that Update saves\<close>

text \<open>
  C10, as amended. After a successful \<open>Update\<close> the saved state has \<open>file_path\<close> and
  \<open>file_sha256\<close> of the plan and \<open>fhir_base_url\<close> of the prior state (the planned
  \<open>fhir_base_url\<close> is not written); \<open>response_sha256\<close> is the fingerprint of the response
  body; and \<open>resource_id\<close> is built from the \<open>resourceType\<close> of the local document and the
  \<open>id\<close> of the response.
\<close>

theorem Update_saved_state:
  assumes "Update w r got_state state got data = (sent, Return resp)"
    and "State resp = Some st"
  shows "FilePath st = FilePath data \<and>
         FileSha256 st = FileSha256 data \<and>
         FhirResourceModel.FhirBaseUrl st = FhirResourceModel.FhirBaseUrl state \<and>
         (\<exists>content m rt rq rsp rj ident.
            read_file w (ValueString (FilePath data)) = FileBytes content \<and>
            json_Unmarshal w content = Inr (Some m) \<and>
            m ''resourceType'' = Some rt \<and>
            sent = [rq] \<and>
            Client_Do w rq = Inr rsp \<and>
            json_Unmarshal w (ResponseBody rsp) = Inr (Some rj) \<and>
            rj ''id'' = Some (JString ident) \<and>
            ResourceId st = StringValue (Sprintf_slash (fmt_s w rt) ident) \<and>
            ResponseSha256 st =
              StringValue (hex_EncodeToString (sha256_Sum256 w (ResponseBody rsp))))"
proof -
  from assms obtain body rj rts ident where
    p: "persistFhirResource w (with_settings r data) (ValueStringPointer (ResourceId state))
          (Append (Append [] got_state) got) =
          (sent, Return (Diagnostics resp, Some (body, Some rj, rts)))" and
    ident: "rj ''id'' = Some (JString ident)" and
    st: "st = state\<lparr>ResourceId := StringValue (Sprintf_slash rts ident),
               ResponseSha256 := StringValue (hex_EncodeToString (sha256_Sum256 w body)),
               FilePath := FilePath data, FileSha256 := FileSha256 data\<rparr>"
    by (rule Update_saved)
  from p obtain content m rt rq rsp where
    "read_file w (FhirResourceFilePath (fhirResourceSettings (with_settings r data))) =
       FileBytes content"
    "json_Unmarshal w content = Inr (Some m)"
    "m ''resourceType'' = Some rt"
    "sent = [rq]"
    "Client_Do w rq = Inr rsp"
    "body = ResponseBody rsp"
    "json_Unmarshal w body = Inr (Some rj)"
    "rts = fmt_s w rt"
    by (rule persistFhirResource_success)
  then have "\<exists>content m rt rq rsp rj ident.
            read_file w (ValueString (FilePath data)) = FileBytes content \<and>
            json_Unmarshal w content = Inr (Some m) \<and>
            m ''resourceType'' = Some rt \<and>
            sent = [rq] \<and>
            Client_Do w rq = Inr rsp \<and>
            json_Unmarshal w (ResponseBody rsp) = Inr (Some rj) \<and>
            rj ''id'' = Some (JString ident) \<and>
            ResourceId st = StringValue (Sprintf_slash (fmt_s w rt) ident) \<and>
            ResponseSha256 st =
              StringValue (hex_EncodeToString (sha256_Sum256 w (ResponseBody rsp)))"
    using ident st by auto
  then show ?thesis using st by simp
qed

text \<open>
  The theorem for a plan that changes \<open>file_sha256\<close> and \<open>fhir_base_url\<close>: the saved state
  keeps \<open>http://old.example\<close>.
\<close>

theorem Update_saved_state_witness:
  "Update example_world example_resource [] example_state [] example_model_new_base =
     (fst (Update example_world example_resource [] example_state [] example_model_new_base),
      Return \<lparr>Diagnostics = [],
              State = Some \<lparr>FilePath = StringValue ''patient.json'',
                            FileSha256 = StringValue ''5e'',
                            FhirBaseUrl = StringValue ''http://old.example'',
                            ResourceId = StringValue ''Patient/1'',
                            ResponseSha256 = StringValue ''7b227265''\<rparr>\<rparr>) \<and>
   StringValue ''patient.json'' = FilePath example_model_new_base \<and>
   StringValue ''5e'' = FileSha256 example_model_new_base \<and>
   StringValue ''http://old.example'' = FhirResourceModel.FhirBaseUrl example_state \<and>
   FhirResourceModel.FhirBaseUrl example_model_new_base = StringValue ''http://new.example'' \<and>
   (\<exists>content m rt rq rsp rj ident.
      read_file example_world (ValueString (FilePath example_model_new_base)) =
        FileBytes content \<and>
      json_Unmarshal example_world content = Inr (Some m) \<and>
      m ''resourceType'' = Some rt \<and>
      fst (Update example_world example_resource [] example_state [] example_model_new_base) =
        [rq] \<and>
      Client_Do example_world rq = Inr rsp \<and>
      json_Unmarshal example_world (ResponseBody rsp) = Inr (Some rj) \<and>
      rj ''id'' = Some (JString ident) \<and>
      StringValue ''Patient/1'' = StringValue (Sprintf_slash (fmt_s example_world rt) ident) \<and>
      StringValue ''7b227265'' =
        StringValue (hex_EncodeToString (sha256_Sum256 example_world (ResponseBody rsp))))"
proof -
  let ?u = "Update example_world example_resource [] example_state [] example_model_new_base"
  let ?s = "\<lparr>FilePath = StringValue ''patient.json'', FileSha256 = StringValue ''5e'',
            FhirBaseUrl = StringValue ''http://old.example'',
            ResourceId = StringValue ''Patient/1'',
            ResponseSha256 = StringValue ''7b227265''\<rparr>"
  have h1: "?u = (fst ?u, Return \<lparr>Diagnostics = [], State = Some ?s\<rparr>)"
    by (simp add: prod_eq_iff patient_json_def medication_json_def blank_json_def
        observation_json_def example_world_def example_settings_def
        example_resource_def example_model_new_base_def example_state_def
        Update_def persistFhirResource_def readFileContent_def ValueString_def
        ValueStringPointer_def HasError_def lookup_def index_def
        assert_string_def fmt_s_def Sprintf_slash_def Header_Set_def
        hex_EncodeToString_def hextable_def AddError_def Let_def)
  have h2: "State \<lparr>Diagnostics = [], State = Some ?s\<rparr> = Some ?s"
    by simp
  have h3: "FhirResourceModel.FhirBaseUrl example_model_new_base =
      StringValue ''http://new.example''"
    by (simp add: example_model_new_base_def)
  from Update_saved_state [OF h1 h2] h1 h3
  show ?thesis by simp
qed

text \<open>
  C10 as stated fails in its last part: \<open>resource_id\<close> does not come from the response
  alone. Two updates of the same prior state get the same answer from the server; the plan
  of one names \<open>patient.json\<close>, the plan of the other \<open>medication.json\<close>; the identifiers
  saved are \<open>Patient/1\<close> and \<open>Medication/1\<close>.
\<close>

theorem resource_id_follows_document_counterexample:
  "snd (Update example_world example_resource [] example_state [] example_model) =
     Return \<lparr>Diagnostics = [],
             State = Some \<lparr>FilePath = StringValue ''patient.json'', FileSha256 = StringNull,
                           FhirBaseUrl = StringValue ''http://old.example'',
                           ResourceId = StringValue ''Patient/1'',
                           ResponseSha256 = StringValue ''7b227265''\<rparr>\<rparr> \<and>
   snd (Update example_world example_resource [] example_state [] example_model_medication) =
     Return \<lparr>Diagnostics = [],
             State = Some \<lparr>FilePath = StringValue ''medication.json'', FileSha256 = StringNull,
                           FhirBaseUrl = StringValue ''http://old.example'',
                           ResourceId = StringValue ''Medication/1'',
                           ResponseSha256 = StringValue ''7b227265''\<rparr>\<rparr> \<and>
   map (Client_Do example_world)
     (fst (Update example_world example_resource [] example_state [] example_model)) =
   map (Client_Do example_world)
     (fst (Update example_world example_resource [] example_state [] example_model_medication))"
  by (simp add: patient_json_def medication_json_def blank_json_def
        observation_json_def example_world_def example_settings_def
        example_resource_def example_model_def example_model_medication_def
        example_state_def Update_def persistFhirResource_def
        readFileContent_def ValueString_def ValueStringPointer_def
        HasError_def lookup_def index_def assert_string_def fmt_s_def
        Sprintf_slash_def Header_Set_def hex_EncodeToString_def hextable_def
        AddError_def Let_def)

end
